theory Spec2Isabelle
  imports Main "HOL-Library.Word" "HOL-Library.Sublist"
begin

section \<open>Envoy bootstrap configuration: parameters and rendering\<close>

text \<open>
  A shallow embedding of package \<open>bootstrap\<close>: the constants and parameter structs, the
  function \<open>GetRenderedBootstrapConfig\<close> (policy to parameters to rendered YAML) and the
  template \<open>bootstrap.yaml.tpl\<close> it executes.

  Go's \<open>int32\<close> is a 32-bit word read as two's complement (\<open>sint\<close>); a Go string is a
  \<open>string\<close>; a pointer that may be \<open>nil\<close> is an \<open>option\<close>; a slice is a list (a nil slice
  and an empty slice render alike, both are \<open>[]\<close>); the string set of
  \<open>k8s.io/apimachinery/pkg/util/sets\<close> is a \<open>string set\<close> with \<open>Has\<close> as membership and
  \<open>Insert\<close> as \<open>insert\<close>.
\<close>

subsection \<open>Formatting verbs\<close>

type_synonym int32 = "32 word"

definition digit_char :: "nat \<Rightarrow> char" where
  "digit_char d = ''0123456789'' ! d"

text \<open>Decimal digits of a natural number, most significant first, no leading zero.\<close>

function decimal :: "nat \<Rightarrow> string" where
  "decimal n = (if n < 10 then [digit_char n] else decimal (n div 10) @ [digit_char (n mod 10)])"
  by pat_completeness auto
termination
  by (relation "measure id") auto

declare decimal.simps [simp del]

text \<open>The verb \<open>%d\<close> (and the template's default printing) of a signed integer.\<close>

definition fmt_d :: "int \<Rightarrow> string" where
  "fmt_d i = (if i < 0 then CHR ''-'' # decimal (nat (- i)) else decimal (nat i))"

text \<open>\<open>fmt.Sprintf("%s:%d", host, port)\<close> with an \<open>int32\<close> port.\<close>

definition Sprintf_s_d :: "string \<Rightarrow> int32 \<Rightarrow> string" where
  "Sprintf_s_d host port = host @ '':'' @ fmt_d (sint port)"

text \<open>\<open>strings.Split(s, sep)\<close> for a separator of one character.\<close>

fun strings_Split :: "string \<Rightarrow> char \<Rightarrow> string list" where
  "strings_Split [] sep = [[]]"
| "strings_Split (c # cs) sep =
     (if c = sep then [] # strings_Split cs sep
      else (case strings_Split cs sep of
              [] \<Rightarrow> [[c]]
            | x # xs \<Rightarrow> (c # x) # xs))"

subsection \<open>Constants\<close>

definition envoyGatewayXdsServerHost :: string where
  "envoyGatewayXdsServerHost = ''envoy-gateway''"

definition envoyAdminAddress :: string where
  "envoyAdminAddress = ''127.0.0.1''"

definition envoyAdminPort :: int32 where
  "envoyAdminPort = 19000"

definition envoyAdminAccessLogPath :: string where
  "envoyAdminAccessLogPath = ''/dev/null''"

definition DefaultXdsServerPort :: int32 where
  "DefaultXdsServerPort = 18000"

definition envoyReadinessAddress :: string where
  "envoyReadinessAddress = ''0.0.0.0''"

definition EnvoyReadinessPort :: int32 where
  "EnvoyReadinessPort = 19001"

definition EnvoyReadinessPath :: string where
  "EnvoyReadinessPath = ''/ready''"

definition RequiredEnvoyStatsMatcherInclusionPrefixes :: string where
  "RequiredEnvoyStatsMatcherInclusionPrefixes =
     ''cluster_manager,listener_manager,server,cluster.xds-grpc''"

subsection \<open>Slices of strings\<close>

text \<open>
  A Go slice is a view of a backing array: a pointer to its first element, a length and a
  capacity. Slices may share an array, and \<open>append\<close> writes the new elements into the
  spare capacity of a slice when they fit, and into a new array only when they do not.
  Memory maps an address to the string stored there; an array is a run of consecutive
  addresses; the \<open>nil\<close> slice has length and capacity 0.
\<close>

record string_slice =
  slice_ptr :: nat
  slice_len :: nat
  slice_cap :: nat

definition nil_slice :: string_slice where
  "nil_slice = \<lparr>slice_ptr = 0, slice_len = 0, slice_cap = 0\<rparr>"

text \<open>The elements of a slice, as a reader sees them in the given memory.\<close>

definition slice_elems :: "(nat \<Rightarrow> string) \<Rightarrow> string_slice \<Rightarrow> string list" where
  "slice_elems mem s = map mem [slice_ptr s..<slice_ptr s + slice_len s]"

fun write_at :: "(nat \<Rightarrow> string) \<Rightarrow> nat \<Rightarrow> string list \<Rightarrow> (nat \<Rightarrow> string)" where
  "write_at mem a [] = mem"
| "write_at mem a (x # xs) = write_at (mem(a := x)) (Suc a) xs"

text \<open>
  \<open>append(s, xs...)\<close>: the memory afterwards and the elements of the slice it returns.
  When the new elements fit the capacity they are written behind the slice's own, in
  place, and every slice that views those addresses sees them; otherwise the result is
  a new array and the memory of the old one is left as it is.
\<close>

definition append_strings ::
  "(nat \<Rightarrow> string) \<Rightarrow> string_slice \<Rightarrow> string list \<Rightarrow> (nat \<Rightarrow> string) \<times> string list" where
  "append_strings mem s xs =
     (if slice_len s + length xs \<le> slice_cap s
      then (let mem' = write_at mem (slice_ptr s + slice_len s) xs
            in (mem', slice_elems mem' (s\<lparr>slice_len := slice_len s + length xs\<rparr>)))
      else (mem, slice_elems mem s @ xs))"

subsection \<open>The policy input\<close>

text \<open>
  Modelled from the spec: the declarations of \<open>egcfgv1a1.ProxyMetrics\<close> and of the types of
  its fields are in package \<open>api/config/v1alpha1\<close>, which is not among the sources. The
  records below hold the fields \<open>GetRenderedBootstrapConfig\<close> reads, with the types it
  uses them at: a presence-only Prometheus sub-object, sink entries that optionally
  carry an OpenTelemetry host and port, and an optional stats-matcher override of three
  string sequences. The three sequences are slices, so the override comes with the
  memory its slices point into.
\<close>

datatype PrometheusProvider = PrometheusProvider

record OpenTelemetrySink =
  Host :: string
  Port :: int32

record MetricSink =
  OpenTelemetry :: "OpenTelemetrySink option"

record ProxyStatsMatcher =
  strings_memory :: "nat \<Rightarrow> string"
  api_InclusionPrefixs :: string_slice
  api_InclusionSuffixs :: string_slice
  api_InclusionRegexps :: string_slice

record ProxyMetrics =
  Prometheus :: "PrometheusProvider option"
  Sinks :: "MetricSink list"
  ProxyStatsMatcher :: "ProxyStatsMatcher option"

subsection \<open>The parameter structs\<close>

record xdsServerParameters =
  xds_Address :: string
  xds_Port :: int32

record metricSink =
  sink_Address :: string
  sink_Port :: int32

record adminServerParameters =
  admin_Address :: string
  admin_Port :: int32
  AccessLogPath :: string

record readyServerParameters =
  ready_Address :: string
  ready_Port :: int32
  ReadinessPath :: string

record ProxyStatsMatcherParameters =
  InclusionPrefixs :: "string list"
  InclusionSuffixs :: "string list"
  InclusionRegexps :: "string list"

text \<open>
  Field \<open>ProxyStatsMatcher\<close> of the struct is \<open>StatsMatcher\<close> here: the policy input has a
  field of the same name.
\<close>

record bootstrapParameters =
  XdsServer :: xdsServerParameters
  AdminServer :: adminServerParameters
  ReadyServer :: readyServerParameters
  EnablePrometheus :: bool
  OtelMetricSinks :: "metricSink list"
  StatsMatcher :: ProxyStatsMatcherParameters

record bootstrapConfig =
  parameters :: bootstrapParameters
  rendered :: string

subsection \<open>Building the parameters\<close>

text \<open>
  \<open>GetRenderedBootstrapConfig\<close> first computes three local variables from the policy,
  \<open>enablePrometheus\<close>, \<open>metricSinks\<close> and \<open>ProxyStatsMatcher\<close>, and puts them into the
  parameters beside the constants. Each is a function of the policy below. The zero
  value of a local variable is \<open>False\<close> or the \<open>nil\<close> slice.
\<close>

text \<open>
  The loop over \<open>proxyMetrics.Sinks\<close>: the state is the set \<open>addresses\<close> and the slice
  \<open>metricSinks\<close>. A sink without an OpenTelemetry target and a sink whose address is
  already in the set are skipped (\<open>continue\<close>).
\<close>

fun sinks_loop ::
  "string set \<times> metricSink list \<Rightarrow> MetricSink list \<Rightarrow> string set \<times> metricSink list" where
  "sinks_loop st [] = st"
| "sinks_loop (addresses, metricSinks) (sink # rest) =
     (case OpenTelemetry sink of
        None \<Rightarrow> sinks_loop (addresses, metricSinks) rest
      | Some ot \<Rightarrow>
          (let addr = Sprintf_s_d (Host ot) (Port ot) in
           if addr \<in> addresses then sinks_loop (addresses, metricSinks) rest
           else sinks_loop
                  (insert addr addresses,
                   metricSinks @ [\<lparr>sink_Address = Host ot, sink_Port = Port ot\<rparr>])
                  rest))"

definition enablePrometheus_of :: "ProxyMetrics option \<Rightarrow> bool" where
  "enablePrometheus_of proxyMetrics =
     (case proxyMetrics of
        None \<Rightarrow> False
      | Some pm \<Rightarrow> (case Prometheus pm of None \<Rightarrow> False | Some _ \<Rightarrow> True))"

definition metricSinks_of :: "ProxyMetrics option \<Rightarrow> metricSink list" where
  "metricSinks_of proxyMetrics =
     (case proxyMetrics of
        None \<Rightarrow> []
      | Some pm \<Rightarrow> snd (sinks_loop ({}, []) (Sinks pm)))"

text \<open>
  The local variable \<open>ProxyStatsMatcher\<close> holds three slices, \<open>nil\<close> unless the policy has
  an override, whose slices it then copies (the slices, not their arrays). Line 183
  appends the baseline to the prefix slice. The parameters hold what the template will
  read from the three slices after that.
\<close>

definition ProxyStatsMatcher_of :: "ProxyMetrics option \<Rightarrow> ProxyStatsMatcherParameters" where
  "ProxyStatsMatcher_of proxyMetrics =
     (let zero = (\<lambda>a. [], nil_slice, nil_slice, nil_slice);
          (mem, prefixs, suffixs, regexps) =
            (case proxyMetrics of
               None \<Rightarrow> zero
             | Some pm \<Rightarrow>
                 (case ProxyStatsMatcher pm of
                    None \<Rightarrow> zero
                  | Some sm \<Rightarrow>
                      (strings_memory sm, api_InclusionPrefixs sm, api_InclusionSuffixs sm,
                       api_InclusionRegexps sm)));
          (mem', prefixs') =
            append_strings mem prefixs
              (strings_Split RequiredEnvoyStatsMatcherInclusionPrefixes CHR '','')
      in \<lparr>InclusionPrefixs = prefixs',
          InclusionSuffixs = slice_elems mem' suffixs,
          InclusionRegexps = slice_elems mem' regexps\<rparr>)"

text \<open>The parameters of the \<open>bootstrapConfig\<close> that \<open>GetRenderedBootstrapConfig\<close> builds.\<close>

definition bootstrapParameters_of :: "ProxyMetrics option \<Rightarrow> bootstrapParameters" where
  "bootstrapParameters_of proxyMetrics =
     \<lparr>XdsServer = \<lparr>xds_Address = envoyGatewayXdsServerHost, xds_Port = DefaultXdsServerPort\<rparr>,
      AdminServer = \<lparr>admin_Address = envoyAdminAddress, admin_Port = envoyAdminPort,
                     AccessLogPath = envoyAdminAccessLogPath\<rparr>,
      ReadyServer = \<lparr>ready_Address = envoyReadinessAddress, ready_Port = EnvoyReadinessPort,
                     ReadinessPath = EnvoyReadinessPath\<rparr>,
      EnablePrometheus = enablePrometheus_of proxyMetrics,
      OtelMetricSinks = metricSinks_of proxyMetrics,
      StatsMatcher = ProxyStatsMatcher_of proxyMetrics\<rparr>"

subsection \<open>The same, with every pointer read written out\<close>

text \<open>
  Reading a field through a \<open>nil\<close> pointer panics in Go. The definitions above leave the
  pointer reads implicit. Here the same lines of \<open>GetRenderedBootstrapConfig\<close> are written
  with each read through a pointer as a dereference that may panic, and each comparison
  with \<open>nil\<close> as the test the source makes before it, so that "does not panic" is a
  statement to prove about the code and not a property of the notation.
\<close>

datatype panic = nil_pointer_dereference

definition deref :: "'a option \<Rightarrow> panic + 'a" where
  "deref p = (case p of None \<Rightarrow> Inl nil_pointer_dereference | Some v \<Rightarrow> Inr v)"

definition and_then :: "panic + 'a \<Rightarrow> ('a \<Rightarrow> panic + 'b) \<Rightarrow> panic + 'b" where
  "and_then m f = (case m of Inl e \<Rightarrow> Inl e | Inr v \<Rightarrow> f v)"

fun sinks_loop_checked ::
  "string set \<times> metricSink list \<Rightarrow> MetricSink list \<Rightarrow> panic + string set \<times> metricSink list"
  where
  "sinks_loop_checked st [] = Inr st"
| "sinks_loop_checked (addresses, metricSinks) (sink # rest) =
     (if OpenTelemetry sink = None then sinks_loop_checked (addresses, metricSinks) rest
      else and_then (deref (OpenTelemetry sink)) (\<lambda>ot.
        let addr = Sprintf_s_d (Host ot) (Port ot) in
        if addr \<in> addresses then sinks_loop_checked (addresses, metricSinks) rest
        else sinks_loop_checked
               (insert addr addresses,
                metricSinks @ [\<lparr>sink_Address = Host ot, sink_Port = Port ot\<rparr>])
               rest))"

definition bootstrapParameters_checked :: "ProxyMetrics option \<Rightarrow> panic + bootstrapParameters" where
  "bootstrapParameters_checked proxyMetrics =
     and_then
       (if proxyMetrics \<noteq> None
        then and_then (deref proxyMetrics) (\<lambda>pm.
               and_then (sinks_loop_checked ({}, []) (Sinks pm)) (\<lambda>(addresses, metricSinks).
               and_then
                 (if ProxyStatsMatcher pm \<noteq> None
                  then and_then (deref (ProxyStatsMatcher pm)) (\<lambda>sm.
                         Inr (strings_memory sm, api_InclusionPrefixs sm,
                              api_InclusionSuffixs sm, api_InclusionRegexps sm))
                  else Inr (\<lambda>a. [], nil_slice, nil_slice, nil_slice))
                 (\<lambda>matcher. Inr (Prometheus pm \<noteq> None, metricSinks, matcher))))
        else Inr (False, [], (\<lambda>a. [], nil_slice, nil_slice, nil_slice)))
       (\<lambda>(enablePrometheus, metricSinks, (mem, prefixs, suffixs, regexps)).
          let (mem', prefixs') =
                append_strings mem prefixs
                  (strings_Split RequiredEnvoyStatsMatcherInclusionPrefixes CHR '','')
          in Inr \<lparr>XdsServer = \<lparr>xds_Address = envoyGatewayXdsServerHost,
                                xds_Port = DefaultXdsServerPort\<rparr>,
                  AdminServer = \<lparr>admin_Address = envoyAdminAddress, admin_Port = envoyAdminPort,
                                 AccessLogPath = envoyAdminAccessLogPath\<rparr>,
                  ReadyServer = \<lparr>ready_Address = envoyReadinessAddress,
                                 ready_Port = EnvoyReadinessPort,
                                 ReadinessPath = EnvoyReadinessPath\<rparr>,
                  EnablePrometheus = enablePrometheus,
                  OtelMetricSinks = metricSinks,
                  StatsMatcher = \<lparr>InclusionPrefixs = prefixs',
                                  InclusionSuffixs = slice_elems mem' suffixs,
                                  InclusionRegexps = slice_elems mem' regexps\<rparr>\<rparr>)"

subsection \<open>The template \<open>bootstrap.yaml.tpl\<close>\<close>

text \<open>
  Every action of the template that opens a block or closes one is written \<open>{{- ...}}\<close>,
  which trims the white space before it, the line break included, and no action trims
  the text after it. So each line of the template that holds text is emitted after a
  line break, with its actions replaced by their values, and a line that holds only a
  block action emits nothing. The rendered text is the emitted lines, each followed by
  a line break (the template ends with one). A value is printed as it is: a string
  verbatim, an integer in decimal. \<open>js\<close> is the template function of that name
  (JavaScript escaping, from the library \<open>text/template\<close>) and is a parameter here.
\<close>

definition prefix_pattern :: \<open>string \<Rightarrow> string list\<close> where
  \<open>prefix_pattern s = [''      - prefix: "'' @ s @ ''"'']\<close>

definition suffix_pattern :: \<open>string \<Rightarrow> string list\<close> where
  \<open>suffix_pattern s = [''      - suffix: "'' @ s @ ''"'']\<close>

definition regex_pattern :: \<open>(string \<Rightarrow> string) \<Rightarrow> string \<Rightarrow> string list\<close> where
  \<open>regex_pattern js s =
    [''      - safe_regex:'',
     ''          google_re2: {}'',
     ''          regex: "'' @ js s @ ''"'']\<close>

definition stats_sink_entry :: \<open>nat \<times> metricSink \<Rightarrow> string list\<close> where
  \<open>stats_sink_entry = (\<lambda>(idx, sink).
    [''- name: "envoy.stat_sinks.open_telemetry"'',
     ''  typed_config:'',
     ''    "@type": type.googleapis.com/envoy.extensions.stat_sinks.open_telemetry.v3.SinkConfig'',
     ''    grpc_service:'',
     ''      envoy_grpc:'',
     ''        cluster_name: otel_metric_sink_'' @ decimal idx])\<close>

definition prometheus_route :: \<open>string list\<close> where
  \<open>prometheus_route =
    [''            virtual_hosts:'',
     ''            - name: prometheus_stats'',
     ''              domains:'',
     ''              - "*"'',
     ''              routes:'',
     ''              - match:'',
     ''                  prefix: /stats/prometheus'',
     ''                route:'',
     ''                  cluster: prometheus_stats'']\<close>

definition prometheus_cluster :: \<open>adminServerParameters \<Rightarrow> string list\<close> where
  \<open>prometheus_cluster a =
    [''  - name: prometheus_stats'',
     ''    connect_timeout: 0.250s'',
     ''    type: STATIC'',
     ''    lb_policy: ROUND_ROBIN'',
     ''    load_assignment:'',
     ''      cluster_name: prometheus_stats'',
     ''      endpoints:'',
     ''      - lb_endpoints:'',
     ''        - endpoint:'',
     ''            address:'',
     ''              socket_address:'',
     ''                address: '' @ admin_Address a,
     ''                port_value: '' @ fmt_d (sint (admin_Port a))]\<close>

definition otel_cluster :: \<open>nat \<times> metricSink \<Rightarrow> string list\<close> where
  \<open>otel_cluster = (\<lambda>(idx, sink).
    [''  - name: otel_metric_sink_'' @ decimal idx,
     ''    connect_timeout: 0.250s'',
     ''    type: STRICT_DNS'',
     ''    typed_extension_protocol_options:'',
     ''      envoy.extensions.upstreams.http.v3.HttpProtocolOptions:'',
     ''        "@type": "type.googleapis.com/envoy.extensions.upstreams.http.v3.HttpProtocolOptions"'',
     ''        explicit_http_config:'',
     ''          http2_protocol_options: {}'',
     ''    lb_policy: ROUND_ROBIN'',
     ''    load_assignment:'',
     ''      cluster_name: otel_metric_sink_'' @ decimal idx,
     ''      endpoints:'',
     ''      - lb_endpoints:'',
     ''        - endpoint:'',
     ''            address:'',
     ''              socket_address:'',
     ''                address: '' @ sink_Address sink,
     ''                port_value: '' @ fmt_d (sint (sink_Port sink))])\<close>

text \<open>Template lines 1 to 10.\<close>

definition admin_section :: \<open>adminServerParameters \<Rightarrow> string list\<close> where
  \<open>admin_section a =
    [''admin:'',
     ''  access_log:'',
     ''  - name: envoy.access_loggers.file'',
     ''    typed_config:'',
     ''      "@type": type.googleapis.com/envoy.extensions.access_loggers.file.v3.FileAccessLog'',
     ''      path: '' @ AccessLogPath a,
     ''  address:'',
     ''    socket_address:'',
     ''      address: '' @ admin_Address a,
     ''      port_value: '' @ fmt_d (sint (admin_Port a))]\<close>

text \<open>Template lines 11 to 25.\<close>

definition stats_config_section ::
  \<open>(string \<Rightarrow> string) \<Rightarrow> ProxyStatsMatcherParameters \<Rightarrow> string list\<close> where
  \<open>stats_config_section js m =
    [''stats_config:'',
     ''  stats_matcher:'',
     ''    inclusion_list:'',
     ''      patterns:'']
    @ concat (map prefix_pattern (InclusionPrefixs m))
    @ concat (map suffix_pattern (InclusionSuffixs m))
    @ concat (map (regex_pattern js) (InclusionRegexps m))\<close>

text \<open>Template lines 26 to 39.\<close>

definition dynamic_resources_section :: \<open>string list\<close> where
  \<open>dynamic_resources_section =
    [''dynamic_resources:'',
     ''  ads_config:'',
     ''    api_type: DELTA_GRPC'',
     ''    transport_api_version: V3'',
     ''    grpc_services:'',
     ''    - envoy_grpc:'',
     ''        cluster_name: xds_cluster'',
     ''    set_node_on_first_message_only: true'',
     ''  lds_config:'',
     ''    ads: {}'',
     ''    resource_api_version: V3'',
     ''  cds_config:'',
     ''    ads: {}'',
     ''    resource_api_version: V3'']\<close>

text \<open>Template lines 40 to 50: a slice is true in \<open>if\<close> when it is not empty.\<close>

definition stats_sinks_section :: \<open>metricSink list \<Rightarrow> string list\<close> where
  \<open>stats_sinks_section sinks =
    (if sinks \<noteq> []
     then [''stats_sinks:''] @ concat (map stats_sink_entry (enumerate 0 sinks))
     else [])\<close>

text \<open>Template lines 51 to 89.\<close>

definition listeners_section :: \<open>bootstrapParameters \<Rightarrow> string list\<close> where
  \<open>listeners_section p =
    [''static_resources:'',
     ''  listeners:'',
     ''  - name: envoy-gateway-proxy-ready-'' @ ready_Address (ReadyServer p) @ ''-''
        @ fmt_d (sint (ready_Port (ReadyServer p))),
     ''    address:'',
     ''      socket_address:'',
     ''        address: '' @ ready_Address (ReadyServer p),
     ''        port_value: '' @ fmt_d (sint (ready_Port (ReadyServer p))),
     ''        protocol: TCP'',
     ''    filter_chains:'',
     ''    - filters:'',
     ''      - name: envoy.filters.network.http_connection_manager'',
     ''        typed_config:'',
     ''          "@type": type.googleapis.com/envoy.extensions.filters.network.http_connection_manager.v3.HttpConnectionManager'',
     ''          stat_prefix: eg-ready-http'',
     ''          route_config:'',
     ''            name: local_route'']
    @ (if EnablePrometheus p then prometheus_route else [])
    @ [''          http_filters:'',
       ''          - name: envoy.filters.http.health_check'',
       ''            typed_config:'',
       ''              "@type": type.googleapis.com/envoy.extensions.filters.http.health_check.v3.HealthCheck'',
       ''              pass_through_mode: false'',
       ''              headers:'',
       ''              - name: ":path"'',
       ''                string_match:'',
       ''                  exact: '' @ ReadinessPath (ReadyServer p),
       ''          - name: envoy.filters.http.router'',
       ''            typed_config:'',
       ''              "@type": type.googleapis.com/envoy.extensions.filters.http.router.v3.Router'']\<close>

text \<open>Template lines 126 to 161.\<close>

definition xds_cluster :: \<open>xdsServerParameters \<Rightarrow> string list\<close> where
  \<open>xds_cluster x =
    [''  - connect_timeout: 10s'',
     ''    load_assignment:'',
     ''      cluster_name: xds_cluster'',
     ''      endpoints:'',
     ''      - lb_endpoints:'',
     ''        - endpoint:'',
     ''            address:'',
     ''              socket_address:'',
     ''                address: '' @ xds_Address x,
     ''                port_value: '' @ fmt_d (sint (xds_Port x)),
     ''    typed_extension_protocol_options:'',
     ''      envoy.extensions.upstreams.http.v3.HttpProtocolOptions:'',
     ''        "@type": "type.googleapis.com/envoy.extensions.upstreams.http.v3.HttpProtocolOptions"'',
     ''        explicit_http_config:'',
     ''          http2_protocol_options: {}'',
     ''    name: xds_cluster'',
     ''    type: STRICT_DNS'',
     ''    transport_socket:'',
     ''      name: envoy.transport_sockets.tls'',
     ''      typed_config:'',
     ''        "@type": type.googleapis.com/envoy.extensions.transport_sockets.tls.v3.UpstreamTlsContext'',
     ''        common_tls_context:'',
     ''          tls_params:'',
     ''            tls_maximum_protocol_version: TLSv1_3'',
     ''          tls_certificate_sds_secret_configs:'',
     ''          - name: xds_certificate'',
     ''            sds_config:'',
     ''              path_config_source:'',
     ''                path: "/sds/xds-certificate.json"'',
     ''              resource_api_version: V3'',
     ''          validation_context_sds_secret_config:'',
     ''            name: xds_trusted_ca'',
     ''            sds_config:'',
     ''              path_config_source:'',
     ''                path: "/sds/xds-trusted-ca.json"'',
     ''              resource_api_version: V3'']\<close>

text \<open>Template lines 90 to 161.\<close>

definition clusters_section :: \<open>bootstrapParameters \<Rightarrow> string list\<close> where
  \<open>clusters_section p =
    [''  clusters:'']
    @ (if EnablePrometheus p then prometheus_cluster (AdminServer p) else [])
    @ concat (map otel_cluster (enumerate 0 (OtelMetricSinks p)))
    @ xds_cluster (XdsServer p)\<close>

text \<open>Template lines 162 to 169.\<close>

definition layered_runtime_section :: \<open>string list\<close> where
  \<open>layered_runtime_section =
    [''layered_runtime:'',
     ''  layers:'',
     ''  - name: runtime-0'',
     ''    rtds_layer:'',
     ''      rtds_config:'',
     ''        ads: {}'',
     ''        resource_api_version: V3'',
     ''      name: runtime-0'']\<close>

definition bootstrapTmpl_lines :: \<open>(string \<Rightarrow> string) \<Rightarrow> bootstrapParameters \<Rightarrow> string list\<close> where
  \<open>bootstrapTmpl_lines js p =
    admin_section (AdminServer p)
    @ stats_config_section js (StatsMatcher p)
    @ dynamic_resources_section
    @ stats_sinks_section (OtelMetricSinks p)
    @ listeners_section p
    @ clusters_section p
    @ layered_runtime_section\<close>

definition unlines :: "string list \<Rightarrow> string" where
  "unlines ls = concat (map (\<lambda>l. l @ [CHR 0x0A]) ls)"

subsection \<open>Executing the template and rendering\<close>

text \<open>
  \<open>Template.Execute(buf, data)\<close> writes to the buffer as it goes and returns an error or
  \<open>nil\<close>; on an error the buffer holds what was written before it. An executor is
  modelled by its two results: the text written and the error's message, if any. The
  package variable \<open>bootstrapTmpl\<close> is the executor of \<open>bootstrap.yaml.tpl\<close>: every field
  the template reads exists and \<open>js\<close> returns no error, so it writes every line and
  returns \<open>nil\<close>.
\<close>

type_synonym template = "bootstrapParameters \<Rightarrow> string \<times> string option"

definition bootstrapTmpl :: "(string \<Rightarrow> string) \<Rightarrow> template" where
  "bootstrapTmpl js p = (unlines (bootstrapTmpl_lines js p), None)"

text \<open>
  \<open>render\<close>: the error of \<open>fmt.Errorf("failed to render bootstrap config: %v", err)\<close> or
  \<open>nil\<close>, and the receiver, whose field \<open>rendered\<close> is assigned only on success. The
  template it executes is a parameter.
\<close>

definition render :: "template \<Rightarrow> bootstrapConfig \<Rightarrow> string option \<times> bootstrapConfig" where
  "render tmpl b =
     (case tmpl (parameters b) of
        (buf, Some err) \<Rightarrow> (Some (''failed to render bootstrap config: '' @ err), b)
      | (buf, None) \<Rightarrow> (None, b\<lparr>rendered := buf\<rparr>))"

text \<open>\<open>GetRenderedBootstrapConfig\<close> returns the rendered string and the error, if any.\<close>

definition GetRenderedBootstrapConfig ::
  "template \<Rightarrow> ProxyMetrics option \<Rightarrow> string \<times> string option" where
  "GetRenderedBootstrapConfig tmpl proxyMetrics =
     (let cfg = \<lparr>parameters = bootstrapParameters_of proxyMetrics, rendered = ''''\<rparr> in
      case render tmpl cfg of
        (Some err, _) \<Rightarrow> ('''', Some err)
      | (None, cfg') \<Rightarrow> (rendered cfg', None))"

section \<open>Notions used in the statements\<close>

subsection \<open>Sinks, targets and keys\<close>

text \<open>The sink entries of the policy; an absent policy has none.\<close>

definition policy_sinks :: "ProxyMetrics option \<Rightarrow> MetricSink list" where
  "policy_sinks proxyMetrics = (case proxyMetrics of None \<Rightarrow> [] | Some pm \<Rightarrow> Sinks pm)"

text \<open>The OpenTelemetry targets of the sink entries that carry one, in order.\<close>

fun otel_targets :: "MetricSink list \<Rightarrow> OpenTelemetrySink list" where
  "otel_targets [] = []"
| "otel_targets (s # ss) =
     (case OpenTelemetry s of None \<Rightarrow> otel_targets ss | Some t \<Rightarrow> t # otel_targets ss)"

text \<open>The composite key \<open>host:port\<close> of a target and of a sink parameter.\<close>

definition target_key :: "OpenTelemetrySink \<Rightarrow> string" where
  "target_key ot = Sprintf_s_d (Host ot) (Port ot)"

definition sink_key :: "metricSink \<Rightarrow> string" where
  "sink_key s = Sprintf_s_d (sink_Address s) (sink_Port s)"

definition to_metricSink :: "OpenTelemetrySink \<Rightarrow> metricSink" where
  "to_metricSink ot = \<lparr>sink_Address = Host ot, sink_Port = Port ot\<rparr>"

text \<open>
  The specification's Deduplicator, written from its words: the first entry is kept and
  every later entry with the same key is dropped, so the entries left are in the order
  of their first occurrence.
\<close>

function first_occurrences :: "('a \<Rightarrow> 'k) \<Rightarrow> 'a list \<Rightarrow> 'a list" where
  "first_occurrences key [] = []"
| "first_occurrences key (x # xs) = x # first_occurrences key (filter (\<lambda>y. key y \<noteq> key x) xs)"
  by pat_completeness auto
termination
  by (relation "measure (\<lambda>(key, xs). length xs)") (auto simp: less_Suc_eq_le)

text \<open>The prefix entries the caller supplies: none without a policy or without an override.\<close>

definition caller_prefixes :: "ProxyMetrics option \<Rightarrow> string list" where
  "caller_prefixes proxyMetrics =
     (case proxyMetrics of
        None \<Rightarrow> []
      | Some pm \<Rightarrow>
          (case ProxyStatsMatcher pm of
             None \<Rightarrow> []
           | Some sm \<Rightarrow> slice_elems (strings_memory sm) (api_InclusionPrefixs sm)))"

definition is_digit :: "char \<Rightarrow> bool" where
  "is_digit c = (c \<in> set ''0123456789'')"

subsection \<open>Recognising lines of the rendered document\<close>

text \<open>
  A line here is a line of the template with its values filled in. The lines where a
  value is filled in begin with a fixed text, so the predicates below tell the lines of
  one kind from all others whatever the values are.
\<close>

text \<open>The first line of the cluster of the sink at position \<open>idx\<close>.\<close>

definition otel_cluster_name :: "nat \<Rightarrow> string" where
  "otel_cluster_name idx = ''  - name: otel_metric_sink_'' @ decimal idx"

definition is_otel_cluster_name :: "string \<Rightarrow> bool" where
  "is_otel_cluster_name l = prefix ''  - name: otel_metric_sink_'' l"

text \<open>The first line of an entry of the section \<open>stats_sinks\<close>, and the lines of that section
  that do not depend on a sink.\<close>

definition stats_sink_name :: \<open>string\<close> where
  \<open>stats_sink_name = ''- name: "envoy.stat_sinks.open_telemetry"''\<close>

definition is_stats_sinks_line :: \<open>string \<Rightarrow> bool\<close> where
  \<open>is_stats_sinks_line l = (l = ''stats_sinks:'' \<or> l = stats_sink_name)\<close>

text \<open>The first line of a pattern of the inclusion list: of a prefix pattern, of any pattern.\<close>

definition is_prefix_pattern :: \<open>string \<Rightarrow> bool\<close> where
  \<open>is_prefix_pattern l = prefix ''      - prefix: "'' l\<close>

definition is_pattern :: \<open>string \<Rightarrow> bool\<close> where
  \<open>is_pattern l =
    (prefix ''      - prefix: "'' l \<or> prefix ''      - suffix: "'' l \<or> l = ''      - safe_regex:'')\<close>

text \<open>The match of the scrape route and the first line of the cluster \<open>prometheus_stats\<close>.\<close>

definition is_prometheus_marker :: "string \<Rightarrow> bool" where
  "is_prometheus_marker l =
     (l = ''                  prefix: /stats/prometheus'' \<or> l = ''  - name: prometheus_stats'')"

subsection \<open>The lines of a text\<close>

text \<open>
  The rendered document is a text; its lines are the pieces that end at a line break
  (a last piece without a line break is a line too). A string is one line when it holds
  no line break.
\<close>

fun split_lines :: "string \<Rightarrow> string list" where
  "split_lines [] = []"
| "split_lines (c # cs) =
     (if c = CHR 0x0A then [] # split_lines cs
      else (case split_lines cs of [] \<Rightarrow> [[c]] | l # ls \<Rightarrow> (c # l) # ls))"

definition one_line :: "string \<Rightarrow> bool" where
  "one_line s = (CHR 0x0A \<notin> set s)"

subsection \<open>A policy for the examples\<close>

text \<open>
  Prometheus is present; of four sink entries one has no target, two have the target
  \<open>m:4317\<close> and one has host \<open>m:4\<close> and port 317; the override supplies two prefixes, one of
  them equal to a baseline entry.
\<close>

definition scenario_policy :: ProxyMetrics where
  "scenario_policy =
     \<lparr>Prometheus = Some PrometheusProvider,
      Sinks = [\<lparr>OpenTelemetry = Some \<lparr>Host = ''m'', Port = 4317\<rparr>\<rparr>,
               \<lparr>OpenTelemetry = None\<rparr>,
               \<lparr>OpenTelemetry = Some \<lparr>Host = ''m'', Port = 4317\<rparr>\<rparr>,
               \<lparr>OpenTelemetry = Some \<lparr>Host = ''m:4'', Port = 317\<rparr>\<rparr>],
      ProxyStatsMatcher =
        Some \<lparr>strings_memory = (\<lambda>a. if a = 0 then ''custom_'' else ''server''),
              api_InclusionPrefixs = \<lparr>slice_ptr = 0, slice_len = 2, slice_cap = 2\<rparr>,
              api_InclusionSuffixs = nil_slice, api_InclusionRegexps = nil_slice\<rparr>\<rparr>"

subsection \<open>The lines of the returned text\<close>

text \<open>
  The lines of the text that \<open>GetRenderedBootstrapConfig\<close> returns with the package's
  template. The statements about what the document contains are about these.
\<close>

definition rendered_lines :: "(string \<Rightarrow> string) \<Rightarrow> ProxyMetrics option \<Rightarrow> string list" where
  "rendered_lines js proxyMetrics =
     split_lines (fst (GetRenderedBootstrapConfig (bootstrapTmpl js) proxyMetrics))"

text \<open>
  The lines of the text made of the given pieces, each piece followed by a line break. A
  piece that holds line breaks gives several lines.
\<close>

definition text_lines_of :: "string list \<Rightarrow> string list" where
  "text_lines_of pieces = concat (map (\<lambda>l. split_lines (l @ [CHR 0x0A])) pieces)"

text \<open>
  The template fills in a value as it is. No value that comes from the policy holds a
  line break: no sink address, no inclusion prefix or suffix as the template reads it, no
  escaped regular expression.
\<close>

definition values_one_line :: "(string \<Rightarrow> string) \<Rightarrow> bootstrapParameters \<Rightarrow> bool" where
  "values_one_line js p =
     (list_all (\<lambda>s. one_line (sink_Address s)) (OtelMetricSinks p)
      \<and> list_all one_line (InclusionPrefixs (StatsMatcher p))
      \<and> list_all one_line (InclusionSuffixs (StatsMatcher p))
      \<and> list_all (\<lambda>r. one_line (js r)) (InclusionRegexps (StatsMatcher p)))"

text \<open>The stats-matcher override of the policy, if there is one.\<close>

definition policy_override :: "ProxyMetrics option \<Rightarrow> ProxyStatsMatcher option" where
  "policy_override proxyMetrics =
     (case proxyMetrics of None \<Rightarrow> None | Some pm \<Rightarrow> ProxyStatsMatcher pm)"

subsection \<open>Policies with a line break in a value\<close>

text \<open>One sink whose host holds a line break followed by the first line of a cluster.\<close>

definition host_injection_policy :: ProxyMetrics where
  "host_injection_policy =
     \<lparr>Prometheus = None,
      Sinks = [\<lparr>OpenTelemetry =
                 Some \<lparr>Host = ''h'' @ [CHR 0x0A] @ ''  - name: otel_metric_sink_9'',
                       Port = 4317\<rparr>\<rparr>],
      ProxyStatsMatcher = None\<rparr>"

text \<open>One caller prefix that closes its quotes and opens a second pattern on a new line.\<close>

definition prefix_injection_policy :: ProxyMetrics where
  \<open>prefix_injection_policy =
     \<lparr>Prometheus = None,
      Sinks = [],
      ProxyStatsMatcher =
        Some \<lparr>strings_memory = (\<lambda>a. ''a"'' @ [CHR 0x0A] @ ''      - prefix: "b''),
              api_InclusionPrefixs = \<lparr>slice_ptr = 0, slice_len = 1, slice_cap = 1\<rparr>,
              api_InclusionSuffixs = nil_slice, api_InclusionRegexps = nil_slice\<rparr>\<rparr>\<close>

text \<open>
  No Prometheus sub-object and no sink; one caller suffix that holds, on lines of their
  own, the match of the scrape route, the first line of the Prometheus cluster, the key
  \<open>stats_sinks:\<close> and the first line of a sink entry.
\<close>

definition suffix_injection_policy :: ProxyMetrics where
  \<open>suffix_injection_policy =
     \<lparr>Prometheus = None,
      Sinks = [],
      ProxyStatsMatcher =
        Some \<lparr>strings_memory =
                (\<lambda>a. ''x"'' @ [CHR 0x0A] @ ''                  prefix: /stats/prometheus''
                       @ [CHR 0x0A] @ ''  - name: prometheus_stats''
                       @ [CHR 0x0A] @ ''stats_sinks:''
                       @ [CHR 0x0A] @ ''- name: "envoy.stat_sinks.open_telemetry"''
                       @ [CHR 0x0A] @ ''      - suffix: "y''),
              api_InclusionPrefixs = nil_slice,
              api_InclusionSuffixs = \<lparr>slice_ptr = 0, slice_len = 1, slice_cap = 1\<rparr>,
              api_InclusionRegexps = nil_slice\<rparr>\<rparr>\<close>

subsection \<open>A policy whose slices share an array\<close>

text \<open>
  One array of five strings: the prefix slice views the first with capacity for all
  five, the suffix slice views the other four.
\<close>

definition shared_array_policy :: ProxyMetrics where
  "shared_array_policy =
     \<lparr>Prometheus = None,
      Sinks = [],
      ProxyStatsMatcher =
        Some \<lparr>strings_memory = (\<lambda>a. if a = 0 then ''custom_'' else ''_timeout''),
              api_InclusionPrefixs = \<lparr>slice_ptr = 0, slice_len = 1, slice_cap = 5\<rparr>,
              api_InclusionSuffixs = \<lparr>slice_ptr = 1, slice_len = 4, slice_cap = 4\<rparr>,
              api_InclusionRegexps = nil_slice\<rparr>\<rparr>"

section \<open>Decimal rendering and the composite key\<close>

lemma digit_char_inj: "a < 10 \<Longrightarrow> b < 10 \<Longrightarrow> digit_char a = digit_char b \<Longrightarrow> a = b"
proof -
  assume a: "a < 10" and b: "b < 10" and e: "digit_char a = digit_char b"
  have d: "distinct ''0123456789''" by simp
  from a b have "a < length ''0123456789''" and "b < length ''0123456789''" by simp_all
  with d e show "a = b" unfolding digit_char_def by (simp only: nth_eq_iff_index_eq)
qed

lemma digit_char_cases: "d < 10 \<Longrightarrow> is_digit (digit_char d)"
proof -
  assume "d < 10"
  then have "d < length ''0123456789''" by simp
  then have "''0123456789'' ! d \<in> set ''0123456789''" by (rule nth_mem)
  then show ?thesis by (simp only: is_digit_def digit_char_def)
qed

lemma decimal_ne: "decimal n \<noteq> []"
  by (subst decimal.simps) simp

lemma decimal_last: "last (decimal n) = digit_char (n mod 10)"
  by (subst decimal.simps) simp

lemma decimal_butlast: "butlast (decimal n) = (if n < 10 then [] else decimal (n div 10))"
  by (subst decimal.simps) simp

lemma decimal_digits: "c \<in> set (decimal n) \<Longrightarrow> is_digit c"
proof (induction n rule: decimal.induct)
  case (1 n)
  show ?case
  proof (cases "n < 10")
    case True
    then show ?thesis using 1(2) digit_char_cases[of n] by (subst (asm) decimal.simps) simp
  next
    case False
    then show ?thesis using 1 digit_char_cases[of "n mod 10"]
      by (subst (asm) (2) decimal.simps) auto
  qed
qed

lemma decimal_inj: "decimal m = decimal n \<Longrightarrow> m = n"
proof (induction m arbitrary: n rule: decimal.induct)
  case (1 m)
  from 1(2) have l: "last (decimal m) = last (decimal n)"
    and b: "butlast (decimal m) = butlast (decimal n)" by simp_all
  from l have md: "m mod 10 = n mod 10"
    by (simp add: decimal_last digit_char_inj)
  show ?case
  proof (cases "m < 10")
    case True
    with b have "n < 10" using decimal_ne[of "n div 10"] by (auto simp: decimal_butlast split: if_splits)
    with True md show ?thesis by simp
  next
    case False
    with b have n: "\<not> n < 10" and "decimal (m div 10) = decimal (n div 10)"
      using decimal_ne[of "m div 10"] by (auto simp: decimal_butlast split: if_splits)
    with 1(1)[OF False] have "m div 10 = n div 10" by simp
    with md show ?thesis by (metis div_mult_mod_eq)
  qed
qed

lemma fmt_d_no_colon: "CHR '':'' \<notin> set (fmt_d i)"
  using decimal_digits[of "CHR '':''"] by (auto simp: fmt_d_def is_digit_def)

lemma fmt_d_inj: "fmt_d i = fmt_d j \<Longrightarrow> i = j"
proof -
  assume e: "fmt_d i = fmt_d j"
  have nm: "\<And>n. hd (decimal n) \<noteq> CHR ''-''"
  proof -
    fix n
    have "hd (decimal n) \<in> set (decimal n)" by (simp add: decimal_ne)
    then have "is_digit (hd (decimal n))" by (rule decimal_digits)
    then show "hd (decimal n) \<noteq> CHR ''-''" by (auto simp: is_digit_def)
  qed
  show "i = j"
  proof (cases "i < 0")
    case True
    show ?thesis
    proof (cases "j < 0")
      case True
      with \<open>i < 0\<close> e have "nat (- i) = nat (- j)" by (simp add: fmt_d_def decimal_inj)
      with True \<open>i < 0\<close> show ?thesis by simp
    next
      case False
      with True e have "CHR ''-'' # decimal (nat (- i)) = decimal (nat j)" by (simp add: fmt_d_def)
      then have "hd (decimal (nat j)) = CHR ''-''" by (metis list.sel(1))
      with nm show ?thesis by simp
    qed
  next
    case False
    show ?thesis
    proof (cases "j < 0")
      case True
      with False e have "decimal (nat i) = CHR ''-'' # decimal (nat (- j))" by (simp add: fmt_d_def)
      then have "hd (decimal (nat i)) = CHR ''-''" by (metis list.sel(1))
      with nm show ?thesis by simp
    next
      case f: False
      with False e have "nat i = nat j" by (simp add: fmt_d_def decimal_inj)
      with False f show ?thesis by simp
    qed
  qed
qed

lemma split_at_last:
  assumes "xs @ c # ys = xs' @ c # ys'" and "c \<notin> set ys" and "c \<notin> set ys'"
  shows "xs = xs' \<and> ys = ys'"
proof -
  have "takeWhile (\<lambda>x. x \<noteq> c) (rev (xs @ c # ys)) = rev ys"
    using assms(2) by (auto simp: takeWhile_tail)
  moreover have "takeWhile (\<lambda>x. x \<noteq> c) (rev (xs' @ c # ys')) = rev ys'"
    using assms(3) by (auto simp: takeWhile_tail)
  ultimately have "ys = ys'" using assms(1) by (metis rev_is_rev_conv)
  with assms(1) show ?thesis by simp
qed

lemma Sprintf_s_d_inj:
  "Sprintf_s_d h p = Sprintf_s_d h' p' \<longleftrightarrow> h = h' \<and> p = p'"
proof
  assume "Sprintf_s_d h p = Sprintf_s_d h' p'"
  then have "h @ CHR '':'' # fmt_d (sint p) = h' @ CHR '':'' # fmt_d (sint p')"
    by (simp add: Sprintf_s_d_def)
  from split_at_last[OF this fmt_d_no_colon fmt_d_no_colon]
  have "h = h'" and "fmt_d (sint p) = fmt_d (sint p')" by simp_all
  then have "h = h'" and "sint p = sint p'" using fmt_d_inj by blast+
  then show "h = h' \<and> p = p'" by (simp add: signed_word_eqI)
qed simp

section \<open>The sink loop and first occurrences\<close>

lemma first_occurrences_filter:
  "first_occurrences key (filter (\<lambda>y. key y \<noteq> k) xs) = filter (\<lambda>y. key y \<noteq> k) (first_occurrences key xs)"
proof (induction key xs rule: first_occurrences.induct)
  case (1 key)
  then show ?case by simp
next
  case (2 key x xs)
  have c: "(\<lambda>y. key y \<noteq> key x \<and> key y \<noteq> k) = (\<lambda>y. key y \<noteq> k \<and> key y \<noteq> key x)" by auto
  show ?case using 2 by (auto simp: c)
qed

lemma set_first_occurrences: "set (first_occurrences key xs) \<subseteq> set xs"
  by (induction key xs rule: first_occurrences.induct) auto

lemma keys_first_occurrences: "key ` set (first_occurrences key xs) = key ` set xs"
proof (induction key xs rule: first_occurrences.induct)
  case (1 key)
  then show ?case by simp
next
  case (2 key x xs)
  then show ?case by auto
qed

lemma distinct_first_occurrences: "distinct (map key (first_occurrences key xs))"
proof (induction key xs rule: first_occurrences.induct)
  case (1 key)
  then show ?case by simp
next
  case (2 key x xs)
  have "key x \<notin> key ` set (first_occurrences key (filter (\<lambda>y. key y \<noteq> key x) xs))"
    by (auto simp: keys_first_occurrences)
  with 2 show ?case by simp
qed

lemma length_first_occurrences: "length (first_occurrences key xs) = card (key ` set xs)"
proof -
  have "length (first_occurrences key xs) = length (map key (first_occurrences key xs))" by simp
  also have "\<dots> = card (set (map key (first_occurrences key xs)))"
    by (rule distinct_card[symmetric]) (rule distinct_first_occurrences)
  also have "\<dots> = card (key ` set xs)" by (simp add: keys_first_occurrences)
  finally show ?thesis .
qed

lemma map_first_occurrences:
  "map key (first_occurrences key xs) = first_occurrences (\<lambda>k. k) (map key xs)"
  by (induction key xs rule: first_occurrences.induct) (auto simp: filter_map comp_def)

lemma sinks_loop_eq:
  "sinks_loop (A, ms) sinks =
     (A \<union> target_key ` set (otel_targets sinks),
      ms @ map to_metricSink
             (first_occurrences target_key (filter (\<lambda>t. target_key t \<notin> A) (otel_targets sinks))))"
proof (induction sinks arbitrary: A ms)
  case Nil
  then show ?case by simp
next
  case (Cons s sinks)
  show ?case
  proof (cases "OpenTelemetry s")
    case None
    then show ?thesis using Cons by simp
  next
    case (Some t)
    show ?thesis
    proof (cases "target_key t \<in> A")
      case True
      then show ?thesis using Some Cons
        by (auto simp: target_key_def Let_def)
    next
      case False
      have c: "(\<lambda>u. target_key u \<noteq> target_key t \<and> target_key u \<notin> A)
             = (\<lambda>u. target_key u \<notin> insert (target_key t) A)" by auto
      have c2: "(\<lambda>u. target_key u \<noteq> target_key t \<and> target_key u \<notin> A)
             = (\<lambda>u. target_key u \<notin> A \<and> target_key u \<noteq> target_key t)" by auto
      from False Some have "sinks_loop (A, ms) (s # sinks) =
         sinks_loop (insert (target_key t) A, ms @ [to_metricSink t]) sinks"
        by (simp add: target_key_def to_metricSink_def Let_def)
      also have "\<dots> = (insert (target_key t) A \<union> target_key ` set (otel_targets sinks),
          (ms @ [to_metricSink t]) @ map to_metricSink
             (first_occurrences target_key
                (filter (\<lambda>u. target_key u \<notin> insert (target_key t) A) (otel_targets sinks))))"
        by (rule Cons)
      finally show ?thesis using False Some
        by (simp add: c[symmetric] c2)
    qed
  qed
qed

lemma metricSinks_of_eq:
  "metricSinks_of proxyMetrics =
     map to_metricSink (first_occurrences target_key (otel_targets (policy_sinks proxyMetrics)))"
  by (cases proxyMetrics) (simp_all add: metricSinks_of_def policy_sinks_def sinks_loop_eq)

lemma sink_key_to_metricSink: "sink_key (to_metricSink t) = target_key t"
  by (simp add: sink_key_def to_metricSink_def target_key_def)

lemma target_key_inj: "target_key t = target_key u \<longleftrightarrow> t = u"
  by (cases t, cases u) (simp add: target_key_def Sprintf_s_d_inj)

section \<open>Lines of one kind in each section of the template\<close>

text \<open>
  For each kind of line, what \<open>filter\<close> keeps of every block and section of the template
  and of the whole document. The lemmas are named by the kind: \<open>cn\<close> for the first lines
  of sink clusters, \<open>pp\<close> for prefix patterns, \<open>pt\<close> for patterns of any sort, \<open>pm\<close> for the
  two Prometheus lines, \<open>ss\<close> for the lines of the section \<open>stats_sinks\<close>.
\<close>

lemma filter_concat_map:
  "(\<And>x. filter P (f x) = g x) \<Longrightarrow> filter P (concat (map f xs)) = concat (map g xs)"
  by (induction xs) simp_all

lemma filter_concat_map_nil:
  "(\<And>x. filter P (f x) = []) \<Longrightarrow> filter P (concat (map f xs)) = []"
  by (induction xs) simp_all

lemma filter_concat_map_single:
  "(\<And>x. filter P (f x) = [g x]) \<Longrightarrow> filter P (concat (map f xs)) = map g xs"
  by (induction xs) simp_all

lemma map_fst_enumerate: "map fst (enumerate n xs) = [n..<n + length xs]"
  by (simp add: enumerate_eq_zip)

lemmas block_defs = admin_section_def dynamic_resources_section_def prometheus_route_def
  prometheus_cluster_def xds_cluster_def layered_runtime_section_def prefix_pattern_def
  suffix_pattern_def regex_pattern_def stats_sink_entry_def otel_cluster_def

lemma cn_blocks:
  \<open>filter is_otel_cluster_name (admin_section a) = []\<close>
  \<open>filter is_otel_cluster_name (dynamic_resources_section) = []\<close>
  \<open>filter is_otel_cluster_name (prometheus_route) = []\<close>
  \<open>filter is_otel_cluster_name (prometheus_cluster a) = []\<close>
  \<open>filter is_otel_cluster_name (xds_cluster x) = []\<close>
  \<open>filter is_otel_cluster_name (layered_runtime_section) = []\<close>
  \<open>filter is_otel_cluster_name (prefix_pattern s) = []\<close>
  \<open>filter is_otel_cluster_name (suffix_pattern s) = []\<close>
  \<open>filter is_otel_cluster_name (regex_pattern js s) = []\<close>
  \<open>filter is_otel_cluster_name (stats_sink_entry e) = []\<close>
  \<open>filter is_otel_cluster_name (otel_cluster e) = [otel_cluster_name (fst e)]\<close>
  by (simp_all add: block_defs is_otel_cluster_name_def otel_cluster_name_def case_prod_beta)

lemma pp_blocks:
  \<open>filter is_prefix_pattern (admin_section a) = []\<close>
  \<open>filter is_prefix_pattern (dynamic_resources_section) = []\<close>
  \<open>filter is_prefix_pattern (prometheus_route) = []\<close>
  \<open>filter is_prefix_pattern (prometheus_cluster a) = []\<close>
  \<open>filter is_prefix_pattern (xds_cluster x) = []\<close>
  \<open>filter is_prefix_pattern (layered_runtime_section) = []\<close>
  \<open>filter is_prefix_pattern (prefix_pattern s) = prefix_pattern s\<close>
  \<open>filter is_prefix_pattern (suffix_pattern s) = []\<close>
  \<open>filter is_prefix_pattern (regex_pattern js s) = []\<close>
  \<open>filter is_prefix_pattern (stats_sink_entry e) = []\<close>
  \<open>filter is_prefix_pattern (otel_cluster e) = []\<close>
  by (simp_all add: block_defs is_prefix_pattern_def case_prod_beta)

lemma pt_blocks:
  \<open>filter is_pattern (admin_section a) = []\<close>
  \<open>filter is_pattern (dynamic_resources_section) = []\<close>
  \<open>filter is_pattern (prometheus_route) = []\<close>
  \<open>filter is_pattern (prometheus_cluster a) = []\<close>
  \<open>filter is_pattern (xds_cluster x) = []\<close>
  \<open>filter is_pattern (layered_runtime_section) = []\<close>
  \<open>filter is_pattern (prefix_pattern s) = prefix_pattern s\<close>
  \<open>filter is_pattern (suffix_pattern s) = suffix_pattern s\<close>
  \<open>filter is_pattern (regex_pattern js s) = [''      - safe_regex:'']\<close>
  \<open>filter is_pattern (stats_sink_entry e) = []\<close>
  \<open>filter is_pattern (otel_cluster e) = []\<close>
  by (simp_all add: block_defs is_pattern_def case_prod_beta)

lemma pm_blocks:
  \<open>filter is_prometheus_marker (admin_section a) = []\<close>
  \<open>filter is_prometheus_marker (dynamic_resources_section) = []\<close>
  \<open>filter is_prometheus_marker (prometheus_route) = [''                  prefix: /stats/prometheus'']\<close>
  \<open>filter is_prometheus_marker (prometheus_cluster a) = [''  - name: prometheus_stats'']\<close>
  \<open>filter is_prometheus_marker (xds_cluster x) = []\<close>
  \<open>filter is_prometheus_marker (layered_runtime_section) = []\<close>
  \<open>filter is_prometheus_marker (prefix_pattern s) = []\<close>
  \<open>filter is_prometheus_marker (suffix_pattern s) = []\<close>
  \<open>filter is_prometheus_marker (regex_pattern js s) = []\<close>
  \<open>filter is_prometheus_marker (stats_sink_entry e) = []\<close>
  \<open>filter is_prometheus_marker (otel_cluster e) = []\<close>
  by (simp_all add: block_defs is_prometheus_marker_def case_prod_beta)

lemma ss_blocks:
  \<open>filter is_stats_sinks_line (admin_section a) = []\<close>
  \<open>filter is_stats_sinks_line (dynamic_resources_section) = []\<close>
  \<open>filter is_stats_sinks_line (prometheus_route) = []\<close>
  \<open>filter is_stats_sinks_line (prometheus_cluster a) = []\<close>
  \<open>filter is_stats_sinks_line (xds_cluster x) = []\<close>
  \<open>filter is_stats_sinks_line (layered_runtime_section) = []\<close>
  \<open>filter is_stats_sinks_line (prefix_pattern s) = []\<close>
  \<open>filter is_stats_sinks_line (suffix_pattern s) = []\<close>
  \<open>filter is_stats_sinks_line (regex_pattern js s) = []\<close>
  \<open>filter is_stats_sinks_line (stats_sink_entry e) = [stats_sink_name]\<close>
  \<open>filter is_stats_sinks_line (otel_cluster e) = []\<close>
  by (simp_all add: block_defs is_stats_sinks_line_def stats_sink_name_def case_prod_beta)

lemma cn_pre: \<open>filter is_otel_cluster_name (concat (map prefix_pattern xs)) = []\<close>
  by (rule filter_concat_map_nil) (rule cn_blocks(7))

lemma cn_suf: \<open>filter is_otel_cluster_name (concat (map suffix_pattern xs)) = []\<close>
  by (rule filter_concat_map_nil) (rule cn_blocks(8))

lemma cn_reg: \<open>filter is_otel_cluster_name (concat (map (regex_pattern js) xs)) = []\<close>
  by (rule filter_concat_map_nil) (rule cn_blocks(9))

lemma cn_ent: \<open>filter is_otel_cluster_name (concat (map stats_sink_entry (enumerate 0 sinks))) = []\<close>
  by (rule filter_concat_map_nil) (rule cn_blocks(10))

lemma cn_otl: \<open>filter is_otel_cluster_name (concat (map otel_cluster (enumerate 0 sinks))) = map otel_cluster_name [0..<length sinks]\<close>
proof -
  have \<open>filter is_otel_cluster_name (concat (map otel_cluster (enumerate 0 sinks)))
      = map (\<lambda>e. otel_cluster_name (fst e)) (enumerate 0 sinks)\<close>
    by (rule filter_concat_map_single) (rule cn_blocks(11))
  also have \<open>\<dots> = map otel_cluster_name (map fst (enumerate 0 sinks))\<close>
    by (simp only: map_map comp_def)
  finally show ?thesis
    by (simp only: map_fst_enumerate add_0)
qed

lemma cn_stats_config:
  \<open>filter is_otel_cluster_name (stats_config_section js m) = []\<close>
  by (simp add: stats_config_section_def cn_pre cn_suf cn_reg is_otel_cluster_name_def del: filter_concat)

lemma cn_stats_sinks:
  \<open>filter is_otel_cluster_name (stats_sinks_section sinks) = []\<close>
  by (cases "sinks = []")
     (simp_all add: stats_sinks_section_def cn_ent is_otel_cluster_name_def del: filter_concat)

lemma cn_listeners:
  \<open>filter is_otel_cluster_name (listeners_section p) = []\<close>
proof (cases "EnablePrometheus p")
  case True
  then show ?thesis
    by (simp only: listeners_section_def if_True filter_append cn_blocks(3))
       (simp add: is_otel_cluster_name_def)
next
  case False
  then show ?thesis
    by (simp only: listeners_section_def if_False filter_append)
       (simp add: is_otel_cluster_name_def)
qed

lemma cn_clusters:
  \<open>filter is_otel_cluster_name (clusters_section p) = map otel_cluster_name [0..<length (OtelMetricSinks p)]\<close>
proof (cases "EnablePrometheus p")
  case True
  then show ?thesis
    by (simp only: clusters_section_def if_True filter_append cn_blocks(4) cn_blocks(5) cn_otl)
       (simp add: is_otel_cluster_name_def)
next
  case False
  then show ?thesis
    by (simp only: clusters_section_def if_False filter_append cn_blocks(5) cn_otl)
       (simp add: is_otel_cluster_name_def)
qed

lemma cn_lines:
  \<open>filter is_otel_cluster_name (bootstrapTmpl_lines js p) = map otel_cluster_name [0..<length (OtelMetricSinks p)]\<close>
  by (simp only: bootstrapTmpl_lines_def filter_append cn_blocks(1) cn_blocks(2) cn_blocks(6)
        cn_stats_config cn_stats_sinks cn_listeners cn_clusters)
     simp

lemma pp_pre: \<open>filter is_prefix_pattern (concat (map prefix_pattern xs)) = concat (map prefix_pattern xs)\<close>
  by (rule filter_concat_map) (rule pp_blocks(7))

lemma pp_suf: \<open>filter is_prefix_pattern (concat (map suffix_pattern xs)) = []\<close>
  by (rule filter_concat_map_nil) (rule pp_blocks(8))

lemma pp_reg: \<open>filter is_prefix_pattern (concat (map (regex_pattern js) xs)) = []\<close>
  by (rule filter_concat_map_nil) (rule pp_blocks(9))

lemma pp_ent: \<open>filter is_prefix_pattern (concat (map stats_sink_entry (enumerate 0 sinks))) = []\<close>
  by (rule filter_concat_map_nil) (rule pp_blocks(10))

lemma pp_otl: \<open>filter is_prefix_pattern (concat (map otel_cluster (enumerate 0 sinks))) = []\<close>
  by (rule filter_concat_map_nil) (rule pp_blocks(11))

lemma pp_stats_config:
  \<open>filter is_prefix_pattern (stats_config_section js m) = concat (map prefix_pattern (InclusionPrefixs m))\<close>
  by (simp add: stats_config_section_def pp_pre pp_suf pp_reg is_prefix_pattern_def del: filter_concat)

lemma pp_stats_sinks:
  \<open>filter is_prefix_pattern (stats_sinks_section sinks) = []\<close>
  by (cases "sinks = []")
     (simp_all add: stats_sinks_section_def pp_ent is_prefix_pattern_def del: filter_concat)

lemma pp_listeners:
  \<open>filter is_prefix_pattern (listeners_section p) = []\<close>
proof (cases "EnablePrometheus p")
  case True
  then show ?thesis
    by (simp only: listeners_section_def if_True filter_append pp_blocks(3))
       (simp add: is_prefix_pattern_def)
next
  case False
  then show ?thesis
    by (simp only: listeners_section_def if_False filter_append)
       (simp add: is_prefix_pattern_def)
qed

lemma pp_clusters:
  \<open>filter is_prefix_pattern (clusters_section p) = []\<close>
proof (cases "EnablePrometheus p")
  case True
  then show ?thesis
    by (simp only: clusters_section_def if_True filter_append pp_blocks(4) pp_blocks(5) pp_otl)
       (simp add: is_prefix_pattern_def)
next
  case False
  then show ?thesis
    by (simp only: clusters_section_def if_False filter_append pp_blocks(5) pp_otl)
       (simp add: is_prefix_pattern_def)
qed

lemma pp_lines:
  \<open>filter is_prefix_pattern (bootstrapTmpl_lines js p) = concat (map prefix_pattern (InclusionPrefixs (StatsMatcher p)))\<close>
  by (simp only: bootstrapTmpl_lines_def filter_append pp_blocks(1) pp_blocks(2) pp_blocks(6)
        pp_stats_config pp_stats_sinks pp_listeners pp_clusters)
     simp

lemma pt_pre: \<open>filter is_pattern (concat (map prefix_pattern xs)) = concat (map prefix_pattern xs)\<close>
  by (rule filter_concat_map) (rule pt_blocks(7))

lemma pt_suf: \<open>filter is_pattern (concat (map suffix_pattern xs)) = concat (map suffix_pattern xs)\<close>
  by (rule filter_concat_map) (rule pt_blocks(8))

lemma pt_reg: \<open>filter is_pattern (concat (map (regex_pattern js) xs)) = map (\<lambda>s. ''      - safe_regex:'') xs\<close>
  by (rule filter_concat_map_single) (rule pt_blocks(9))

lemma pt_ent: \<open>filter is_pattern (concat (map stats_sink_entry (enumerate 0 sinks))) = []\<close>
  by (rule filter_concat_map_nil) (rule pt_blocks(10))

lemma pt_otl: \<open>filter is_pattern (concat (map otel_cluster (enumerate 0 sinks))) = []\<close>
  by (rule filter_concat_map_nil) (rule pt_blocks(11))

lemma pt_stats_config:
  \<open>filter is_pattern (stats_config_section js m) = concat (map prefix_pattern (InclusionPrefixs m)) @ concat (map suffix_pattern (InclusionSuffixs m)) @ map (\<lambda>s. ''      - safe_regex:'') (InclusionRegexps m)\<close>
  by (simp add: stats_config_section_def pt_pre pt_suf pt_reg is_pattern_def del: filter_concat)

lemma pt_stats_sinks:
  \<open>filter is_pattern (stats_sinks_section sinks) = []\<close>
  by (cases "sinks = []")
     (simp_all add: stats_sinks_section_def pt_ent is_pattern_def del: filter_concat)

lemma pt_listeners:
  \<open>filter is_pattern (listeners_section p) = []\<close>
proof (cases "EnablePrometheus p")
  case True
  then show ?thesis
    by (simp only: listeners_section_def if_True filter_append pt_blocks(3))
       (simp add: is_pattern_def)
next
  case False
  then show ?thesis
    by (simp only: listeners_section_def if_False filter_append)
       (simp add: is_pattern_def)
qed

lemma pt_clusters:
  \<open>filter is_pattern (clusters_section p) = []\<close>
proof (cases "EnablePrometheus p")
  case True
  then show ?thesis
    by (simp only: clusters_section_def if_True filter_append pt_blocks(4) pt_blocks(5) pt_otl)
       (simp add: is_pattern_def)
next
  case False
  then show ?thesis
    by (simp only: clusters_section_def if_False filter_append pt_blocks(5) pt_otl)
       (simp add: is_pattern_def)
qed

lemma pt_lines:
  \<open>filter is_pattern (bootstrapTmpl_lines js p) = concat (map prefix_pattern (InclusionPrefixs (StatsMatcher p))) @ concat (map suffix_pattern (InclusionSuffixs (StatsMatcher p))) @ map (\<lambda>s. ''      - safe_regex:'') (InclusionRegexps (StatsMatcher p))\<close>
  by (simp only: bootstrapTmpl_lines_def filter_append pt_blocks(1) pt_blocks(2) pt_blocks(6)
        pt_stats_config pt_stats_sinks pt_listeners pt_clusters)
     simp

lemma pm_pre: \<open>filter is_prometheus_marker (concat (map prefix_pattern xs)) = []\<close>
  by (rule filter_concat_map_nil) (rule pm_blocks(7))

lemma pm_suf: \<open>filter is_prometheus_marker (concat (map suffix_pattern xs)) = []\<close>
  by (rule filter_concat_map_nil) (rule pm_blocks(8))

lemma pm_reg: \<open>filter is_prometheus_marker (concat (map (regex_pattern js) xs)) = []\<close>
  by (rule filter_concat_map_nil) (rule pm_blocks(9))

lemma pm_ent: \<open>filter is_prometheus_marker (concat (map stats_sink_entry (enumerate 0 sinks))) = []\<close>
  by (rule filter_concat_map_nil) (rule pm_blocks(10))

lemma pm_otl: \<open>filter is_prometheus_marker (concat (map otel_cluster (enumerate 0 sinks))) = []\<close>
  by (rule filter_concat_map_nil) (rule pm_blocks(11))

lemma pm_stats_config:
  \<open>filter is_prometheus_marker (stats_config_section js m) = []\<close>
  by (simp add: stats_config_section_def pm_pre pm_suf pm_reg is_prometheus_marker_def del: filter_concat)

lemma pm_stats_sinks:
  \<open>filter is_prometheus_marker (stats_sinks_section sinks) = []\<close>
  by (cases "sinks = []")
     (simp_all add: stats_sinks_section_def pm_ent is_prometheus_marker_def del: filter_concat)

lemma pm_listeners:
  \<open>filter is_prometheus_marker (listeners_section p) = (if EnablePrometheus p then [''                  prefix: /stats/prometheus''] else [])\<close>
proof (cases "EnablePrometheus p")
  case True
  then show ?thesis
    by (simp only: listeners_section_def if_True filter_append pm_blocks(3))
       (simp add: is_prometheus_marker_def)
next
  case False
  then show ?thesis
    by (simp only: listeners_section_def if_False filter_append)
       (simp add: is_prometheus_marker_def)
qed

lemma pm_clusters:
  \<open>filter is_prometheus_marker (clusters_section p) = (if EnablePrometheus p then [''  - name: prometheus_stats''] else [])\<close>
proof (cases "EnablePrometheus p")
  case True
  then show ?thesis
    by (simp only: clusters_section_def if_True filter_append pm_blocks(4) pm_blocks(5) pm_otl)
       (simp add: is_prometheus_marker_def)
next
  case False
  then show ?thesis
    by (simp only: clusters_section_def if_False filter_append pm_blocks(5) pm_otl)
       (simp add: is_prometheus_marker_def)
qed

lemma pm_lines:
  \<open>filter is_prometheus_marker (bootstrapTmpl_lines js p) = (if EnablePrometheus p then [''                  prefix: /stats/prometheus'', ''  - name: prometheus_stats''] else [])\<close>
  by (simp only: bootstrapTmpl_lines_def filter_append pm_blocks(1) pm_blocks(2) pm_blocks(6)
        pm_stats_config pm_stats_sinks pm_listeners pm_clusters)
     simp

lemma ss_pre: \<open>filter is_stats_sinks_line (concat (map prefix_pattern xs)) = []\<close>
  by (rule filter_concat_map_nil) (rule ss_blocks(7))

lemma ss_suf: \<open>filter is_stats_sinks_line (concat (map suffix_pattern xs)) = []\<close>
  by (rule filter_concat_map_nil) (rule ss_blocks(8))

lemma ss_reg: \<open>filter is_stats_sinks_line (concat (map (regex_pattern js) xs)) = []\<close>
  by (rule filter_concat_map_nil) (rule ss_blocks(9))

lemma ss_ent: \<open>filter is_stats_sinks_line (concat (map stats_sink_entry (enumerate 0 sinks))) = replicate (length sinks) stats_sink_name\<close>
proof -
  have \<open>filter is_stats_sinks_line (concat (map stats_sink_entry (enumerate 0 sinks)))
      = map (\<lambda>e. stats_sink_name) (enumerate 0 sinks)\<close>
    by (rule filter_concat_map_single) (rule ss_blocks(10))
  then show ?thesis
    by (simp add: map_replicate_const)
qed

lemma ss_otl: \<open>filter is_stats_sinks_line (concat (map otel_cluster (enumerate 0 sinks))) = []\<close>
  by (rule filter_concat_map_nil) (rule ss_blocks(11))

lemma ss_stats_config:
  \<open>filter is_stats_sinks_line (stats_config_section js m) = []\<close>
  by (simp add: stats_config_section_def ss_pre ss_suf ss_reg is_stats_sinks_line_def stats_sink_name_def del: filter_concat)

lemma ss_stats_sinks:
  \<open>filter is_stats_sinks_line (stats_sinks_section sinks) = (if sinks = [] then [] else ''stats_sinks:'' # replicate (length sinks) stats_sink_name)\<close>
  by (cases "sinks = []")
     (simp_all add: stats_sinks_section_def ss_ent is_stats_sinks_line_def stats_sink_name_def del: filter_concat)

lemma ss_listeners:
  \<open>filter is_stats_sinks_line (listeners_section p) = []\<close>
proof (cases "EnablePrometheus p")
  case True
  then show ?thesis
    by (simp only: listeners_section_def if_True filter_append ss_blocks(3))
       (simp add: is_stats_sinks_line_def stats_sink_name_def)
next
  case False
  then show ?thesis
    by (simp only: listeners_section_def if_False filter_append)
       (simp add: is_stats_sinks_line_def stats_sink_name_def)
qed

lemma ss_clusters:
  \<open>filter is_stats_sinks_line (clusters_section p) = []\<close>
proof (cases "EnablePrometheus p")
  case True
  then show ?thesis
    by (simp only: clusters_section_def if_True filter_append ss_blocks(4) ss_blocks(5) ss_otl)
       (simp add: is_stats_sinks_line_def stats_sink_name_def)
next
  case False
  then show ?thesis
    by (simp only: clusters_section_def if_False filter_append ss_blocks(5) ss_otl)
       (simp add: is_stats_sinks_line_def stats_sink_name_def)
qed

lemma ss_lines:
  \<open>filter is_stats_sinks_line (bootstrapTmpl_lines js p) = (if OtelMetricSinks p = [] then [] else ''stats_sinks:'' # replicate (length (OtelMetricSinks p)) stats_sink_name)\<close>
  by (simp only: bootstrapTmpl_lines_def filter_append ss_blocks(1) ss_blocks(2) ss_blocks(6)
        ss_stats_config ss_stats_sinks ss_listeners ss_clusters)
     simp

section \<open>Appending to a slice\<close>

lemma write_at_below: "a' < a \<Longrightarrow> write_at mem a xs a' = mem a'"
  by (induction xs arbitrary: mem a) simp_all

lemma map_write_at: "map (write_at mem a xs) [a..<a + length xs] = xs"
proof (induction xs arbitrary: mem a)
  case Nil
  then show ?case by simp
next
  case (Cons x xs)
  have u: "[a..<a + length (x # xs)] = a # [Suc a..<Suc a + length xs]"
    by (subst upt_rec) simp
  have "write_at (mem(a := x)) (Suc a) xs a = x"
    by (simp add: write_at_below)
  then show ?case
    using Cons [of "mem(a := x)" "Suc a"] by (simp only: u write_at.simps list.map)
qed

lemma slice_elems_appended:
  "slice_elems (write_at mem (slice_ptr s + slice_len s) xs)
       (s\<lparr>slice_len := slice_len s + length xs\<rparr>)
     = slice_elems mem s @ xs"
proof -
  define p n where "p = slice_ptr s" and "n = slice_len s"
  define m where "m = write_at mem (p + n) xs"
  have u: "[p..<p + n + length xs] = [p..<p + n] @ [p + n..<p + n + length xs]"
    by (rule upt_add_eq_append) simp
  have b: "map m [p..<p + n] = map mem [p..<p + n]"
    unfolding m_def by (rule map_cong) (simp_all add: write_at_below)
  have c: "map m [p + n..<p + n + length xs] = xs"
    unfolding m_def by (rule map_write_at)
  have e: "slice_elems m (s\<lparr>slice_len := n + length xs\<rparr>) = map m [p..<p + n + length xs]"
    by (simp add: slice_elems_def p_def add.assoc)
  have f: "slice_elems mem s = map mem [p..<p + n]"
    by (simp add: slice_elems_def p_def n_def)
  have "slice_elems m (s\<lparr>slice_len := n + length xs\<rparr>) = slice_elems mem s @ xs"
    by (simp only: e u map_append b c f)
  then show ?thesis
    by (simp only: m_def p_def n_def)
qed

lemma snd_append_strings: "snd (append_strings mem s xs) = slice_elems mem s @ xs"
  by (simp add: append_strings_def slice_elems_appended Let_def)

lemma slice_elems_nil [simp]: "slice_elems mem nil_slice = []"
  by (simp add: slice_elems_def nil_slice_def)

section \<open>Chunks without line breaks are the lines of the text\<close>

lemma one_line_Nil [simp]: "one_line []"
  by (simp add: one_line_def)

lemma one_line_Cons [simp]: "one_line (c # cs) \<longleftrightarrow> c \<noteq> CHR 0x0A \<and> one_line cs"
  by (auto simp: one_line_def)

lemma one_line_append [simp]: "one_line (xs @ ys) \<longleftrightarrow> one_line xs \<and> one_line ys"
  by (auto simp: one_line_def)

lemma split_lines_line: "one_line l \<Longrightarrow> split_lines (l @ CHR 0x0A # rest) = l # split_lines rest"
  by (induction l) simp_all

lemma split_lines_unlines: "list_all one_line ls \<Longrightarrow> split_lines (unlines ls) = ls"
  by (induction ls) (simp_all add: unlines_def split_lines_line)

lemma split_lines_ne: "s \<noteq> [] \<Longrightarrow> split_lines s \<noteq> []"
  by (cases s) (simp_all split: list.split)

lemma split_lines_chunk:
  "split_lines (l @ CHR 0x0A # rest) = split_lines (l @ [CHR 0x0A]) @ split_lines rest"
proof (induction l)
  case Nil
  then show ?case by simp
next
  case (Cons c l)
  have "split_lines (l @ [CHR 0x0A]) \<noteq> []" by (rule split_lines_ne) simp
  then obtain x xs where x: "split_lines (l @ [CHR 0x0A]) = x # xs"
    by (cases "split_lines (l @ [CHR 0x0A])") simp_all
  have r: "split_lines (l @ CHR 0x0A # rest) = x # (xs @ split_lines rest)"
    by (simp only: Cons x append_Cons)
  show ?case
  proof (cases "c = CHR 0x0A")
    case True
    then show ?thesis by (simp add: Cons)
  next
    case False
    then show ?thesis
      by (simp add: r x)
  qed
qed

lemma split_lines_unlines_chunks:
  "split_lines (unlines ls) = concat (map (\<lambda>l. split_lines (l @ [CHR 0x0A])) ls)"
proof (induction ls)
  case Nil
  then show ?case by (simp add: unlines_def)
next
  case (Cons l ls)
  have "unlines (l # ls) = l @ CHR 0x0A # unlines ls"
    by (simp add: unlines_def)
  then have "split_lines (unlines (l # ls))
      = split_lines (l @ [CHR 0x0A]) @ split_lines (unlines ls)"
    using split_lines_chunk [of l "unlines ls"] by (simp only:)
  then show ?case
    by (simp only: Cons list.map concat.simps)
qed

lemma split_lines_one_line: "one_line l \<Longrightarrow> split_lines (l @ [CHR 0x0A]) = [l]"
  using split_lines_line [of l "[]"] by simp

lemma one_line_decimal [simp]: "one_line (decimal n)"
  using decimal_digits [of "CHR 0x0A" n] by (auto simp: one_line_def is_digit_def)

lemma one_line_fmt_d [simp]: "one_line (fmt_d i)"
  by (simp add: fmt_d_def)

lemma list_all_concat_map:
  "(\<And>x. x \<in> set xs \<Longrightarrow> list_all P (f x)) \<Longrightarrow> list_all P (concat (map f xs))"
  by (induction xs) simp_all

lemma ol_admin:
  "one_line (AccessLogPath a) \<Longrightarrow> one_line (admin_Address a) \<Longrightarrow> list_all one_line (admin_section a)"
  by (simp add: admin_section_def)

lemma ol_simple:
  "list_all one_line dynamic_resources_section"
  "list_all one_line prometheus_route"
  "list_all one_line layered_runtime_section"
  "one_line (admin_Address a) \<Longrightarrow> list_all one_line (prometheus_cluster a)"
  "one_line (xds_Address x) \<Longrightarrow> list_all one_line (xds_cluster x)"
  "one_line s \<Longrightarrow> list_all one_line (prefix_pattern s)"
  "one_line s \<Longrightarrow> list_all one_line (suffix_pattern s)"
  "one_line (js s) \<Longrightarrow> list_all one_line (regex_pattern js s)"
  "list_all one_line (stats_sink_entry e)"
  "one_line (sink_Address (snd e)) \<Longrightarrow> list_all one_line (otel_cluster e)"
  by (simp_all add: block_defs case_prod_beta)


lemma list_all_concat_map':
  "list_all Q xs \<Longrightarrow> (\<And>x. Q x \<Longrightarrow> list_all P (f x)) \<Longrightarrow> list_all P (concat (map f xs))"
  by (induction xs) simp_all

lemma ol_stats_config:
  assumes "list_all one_line (InclusionPrefixs m)" and "list_all one_line (InclusionSuffixs m)"
    and "list_all (\<lambda>r. one_line (js r)) (InclusionRegexps m)"
  shows "list_all one_line (stats_config_section js m)"
proof -
  have 1: "list_all one_line (concat (map prefix_pattern (InclusionPrefixs m)))"
    by (rule list_all_concat_map' [OF assms(1)]) (rule ol_simple)
  have 2: "list_all one_line (concat (map suffix_pattern (InclusionSuffixs m)))"
    by (rule list_all_concat_map' [OF assms(2)]) (rule ol_simple)
  have 3: "list_all one_line (concat (map (regex_pattern js) (InclusionRegexps m)))"
    by (rule list_all_concat_map' [OF assms(3)]) (rule ol_simple)
  show ?thesis
    unfolding stats_config_section_def list_all_append using 1 2 3 by simp
qed

lemma ol_stats_sinks: "list_all one_line (stats_sinks_section sinks)"
  by (simp add: stats_sinks_section_def list_all_concat_map ol_simple)

lemma ol_listeners:
  "one_line (ready_Address (ReadyServer p)) \<Longrightarrow> one_line (ReadinessPath (ReadyServer p)) \<Longrightarrow>
   list_all one_line (listeners_section p)"
  by (cases "EnablePrometheus p") (simp_all add: listeners_section_def ol_simple)

lemma ol_otel_clusters:
  "list_all (\<lambda>s. one_line (sink_Address s)) sinks \<Longrightarrow>
   list_all one_line (concat (map otel_cluster (enumerate 0 sinks)))"
proof (rule list_all_concat_map)
  fix e
  assume a: "list_all (\<lambda>s. one_line (sink_Address s)) sinks" and e: "e \<in> set (enumerate 0 sinks)"
  from e have "fst e < length sinks" and "sinks ! fst e = snd e"
    by (simp_all add: in_set_enumerate_eq)
  then have "snd e \<in> set sinks" using nth_mem by metis
  with a have "one_line (sink_Address (snd e))" by (simp add: list_all_iff)
  then show "list_all one_line (otel_cluster e)" by (rule ol_simple)
qed

lemma ol_clusters:
  "one_line (admin_Address (AdminServer p)) \<Longrightarrow> one_line (xds_Address (XdsServer p)) \<Longrightarrow>
   list_all (\<lambda>s. one_line (sink_Address s)) (OtelMetricSinks p) \<Longrightarrow>
   list_all one_line (clusters_section p)"
  by (cases "EnablePrometheus p") (simp_all add: clusters_section_def ol_simple ol_otel_clusters)

lemma ol_lines:
  assumes "list_all (\<lambda>s. one_line (sink_Address s)) (OtelMetricSinks (bootstrapParameters_of proxyMetrics))"
    and "list_all one_line (InclusionPrefixs (StatsMatcher (bootstrapParameters_of proxyMetrics)))"
    and "list_all one_line (InclusionSuffixs (StatsMatcher (bootstrapParameters_of proxyMetrics)))"
    and "list_all (\<lambda>r. one_line (js r)) (InclusionRegexps (StatsMatcher (bootstrapParameters_of proxyMetrics)))"
  shows "list_all one_line (bootstrapTmpl_lines js (bootstrapParameters_of proxyMetrics))"
proof -
  let ?p = "bootstrapParameters_of proxyMetrics"
  have c: "one_line (AccessLogPath (AdminServer ?p))" "one_line (admin_Address (AdminServer ?p))"
    "one_line (ready_Address (ReadyServer ?p))" "one_line (ReadinessPath (ReadyServer ?p))"
    "one_line (xds_Address (XdsServer ?p))"
    by (simp_all add: bootstrapParameters_of_def envoyGatewayXdsServerHost_def
      envoyAdminAddress_def envoyAdminAccessLogPath_def envoyReadinessAddress_def
      EnvoyReadinessPath_def)
  show ?thesis
    unfolding bootstrapTmpl_lines_def list_all_append
    using assms c
    by (intro conjI ol_admin ol_stats_config ol_simple ol_stats_sinks ol_listeners ol_clusters)
qed

section \<open>The claims\<close>

subsection \<open>Rendering with the package's template; evaluation on the example policy\<close>

lemma GetRendered_bootstrapTmpl:
  "GetRenderedBootstrapConfig (bootstrapTmpl js) proxyMetrics =
     (unlines (bootstrapTmpl_lines js (bootstrapParameters_of proxyMetrics)), None)"
  by (simp add: GetRenderedBootstrapConfig_def render_def bootstrapTmpl_def)

lemma rendered_lines_chunks:
  "rendered_lines js proxyMetrics =
     text_lines_of (bootstrapTmpl_lines js (bootstrapParameters_of proxyMetrics))"
  by (simp only: rendered_lines_def GetRendered_bootstrapTmpl fst_conv split_lines_unlines_chunks
        text_lines_of_def)

lemma text_lines_of_append [simp]:
  "text_lines_of (xs @ ys) = text_lines_of xs @ text_lines_of ys"
  by (simp add: text_lines_of_def)

lemma text_lines_of_Nil [simp]: "text_lines_of [] = []"
  by (simp add: text_lines_of_def)

lemma text_lines_of_Cons: "text_lines_of (l # ls) = split_lines (l @ [CHR 0x0A]) @ text_lines_of ls"
  by (simp add: text_lines_of_def)

lemma chunks_one_line: "list_all one_line ls \<Longrightarrow> text_lines_of ls = ls"
  by (induction ls) (simp_all add: text_lines_of_Cons split_lines_one_line)

lemma rendered_lines_eq:
  assumes "values_one_line js (bootstrapParameters_of proxyMetrics)"
  shows "rendered_lines js proxyMetrics
           = bootstrapTmpl_lines js (bootstrapParameters_of proxyMetrics)"
proof -
  have "list_all one_line (bootstrapTmpl_lines js (bootstrapParameters_of proxyMetrics))"
    using assms unfolding values_one_line_def by (intro ol_lines) simp_all
  then show ?thesis
    by (simp only: rendered_lines_chunks chunks_one_line)
qed

lemmas decimal_eval =
  decimal.simps[of "numeral k"] decimal.simps[of 0] decimal.simps[of "Suc 0"] for k

lemmas key_eval = target_key_def sink_key_def Sprintf_s_d_def fmt_d_def decimal_eval digit_char_def

lemma OtelMetricSinks_of [simp]:
  "OtelMetricSinks (bootstrapParameters_of proxyMetrics) = metricSinks_of proxyMetrics"
  by (simp add: bootstrapParameters_of_def)

lemma EnablePrometheus_of [simp]:
  "EnablePrometheus (bootstrapParameters_of proxyMetrics) = enablePrometheus_of proxyMetrics"
  by (simp add: bootstrapParameters_of_def)

lemma StatsMatcher_of [simp]:
  "StatsMatcher (bootstrapParameters_of proxyMetrics) = ProxyStatsMatcher_of proxyMetrics"
  by (simp add: bootstrapParameters_of_def)

lemma split_baseline:
  "strings_Split RequiredEnvoyStatsMatcherInclusionPrefixes CHR '','' =
     [''cluster_manager'', ''listener_manager'', ''server'', ''cluster.xds-grpc'']"
  by (simp add: RequiredEnvoyStatsMatcherInclusionPrefixes_def)

lemma append_strings_nil:
  "append_strings mem nil_slice (x # xs) = (mem, x # xs)"
  by (simp add: append_strings_def nil_slice_def slice_elems_def)

lemma ProxyStatsMatcher_of_absent:
  "policy_override proxyMetrics = None \<Longrightarrow>
   ProxyStatsMatcher_of proxyMetrics =
     \<lparr>InclusionPrefixs = [''cluster_manager'', ''listener_manager'', ''server'', ''cluster.xds-grpc''],
      InclusionSuffixs = [], InclusionRegexps = []\<rparr>"
  by (cases proxyMetrics)
     (simp_all add: ProxyStatsMatcher_of_def policy_override_def split_baseline append_strings_nil)

lemma ProxyStatsMatcher_of_present:
  assumes "policy_override proxyMetrics = Some sm"
  shows "ProxyStatsMatcher_of proxyMetrics =
     \<lparr>InclusionPrefixs =
        slice_elems (strings_memory sm) (api_InclusionPrefixs sm)
          @ [''cluster_manager'', ''listener_manager'', ''server'', ''cluster.xds-grpc''],
      InclusionSuffixs =
        slice_elems
          (fst (append_strings (strings_memory sm) (api_InclusionPrefixs sm)
             [''cluster_manager'', ''listener_manager'', ''server'', ''cluster.xds-grpc'']))
          (api_InclusionSuffixs sm),
      InclusionRegexps =
        slice_elems
          (fst (append_strings (strings_memory sm) (api_InclusionPrefixs sm)
             [''cluster_manager'', ''listener_manager'', ''server'', ''cluster.xds-grpc'']))
          (api_InclusionRegexps sm)\<rparr>"
proof -
  from assms obtain pm where p: "proxyMetrics = Some pm" and o: "ProxyStatsMatcher pm = Some sm"
    by (cases proxyMetrics) (simp_all add: policy_override_def)
  have s: "snd (append_strings (strings_memory sm) (api_InclusionPrefixs sm) xs)
      = slice_elems (strings_memory sm) (api_InclusionPrefixs sm) @ xs" for xs
    by (rule snd_append_strings)
  show ?thesis
    by (simp add: ProxyStatsMatcher_of_def p o split_baseline case_prod_beta s)
qed

lemma InclusionPrefixs_eq:
  "InclusionPrefixs (StatsMatcher (bootstrapParameters_of proxyMetrics)) =
     caller_prefixes proxyMetrics
       @ [''cluster_manager'', ''listener_manager'', ''server'', ''cluster.xds-grpc'']"
proof (cases "policy_override proxyMetrics")
  case None
  then have "caller_prefixes proxyMetrics = []"
    by (cases proxyMetrics) (simp_all add: caller_prefixes_def policy_override_def)
  with None show ?thesis by (simp add: ProxyStatsMatcher_of_absent)
next
  case (Some sm)
  then have "caller_prefixes proxyMetrics
      = slice_elems (strings_memory sm) (api_InclusionPrefixs sm)"
    by (cases proxyMetrics) (simp_all add: caller_prefixes_def policy_override_def)
  with Some show ?thesis by (simp add: ProxyStatsMatcher_of_present)
qed

lemma AdminServer_of:
  "AdminServer (bootstrapParameters_of proxyMetrics)
     = \<lparr>admin_Address = ''127.0.0.1'', admin_Port = 19000, AccessLogPath = ''/dev/null''\<rparr>"
  by (simp add: bootstrapParameters_of_def envoyAdminAddress_def envoyAdminPort_def
      envoyAdminAccessLogPath_def)

lemma XdsServer_of:
  "XdsServer (bootstrapParameters_of proxyMetrics)
     = \<lparr>xds_Address = ''envoy-gateway'', xds_Port = 18000\<rparr>"
  by (simp add: bootstrapParameters_of_def envoyGatewayXdsServerHost_def DefaultXdsServerPort_def)

lemma ReadyServer_of:
  "ReadyServer (bootstrapParameters_of proxyMetrics)
     = \<lparr>ready_Address = ''0.0.0.0'', ready_Port = 19001, ReadinessPath = ''/ready''\<rparr>"
  by (simp add: bootstrapParameters_of_def envoyReadinessAddress_def EnvoyReadinessPort_def
      EnvoyReadinessPath_def)

lemma scenario_sinks:
  "metricSinks_of (Some scenario_policy) =
     [\<lparr>sink_Address = ''m'', sink_Port = 4317\<rparr>, \<lparr>sink_Address = ''m:4'', sink_Port = 317\<rparr>]"
  by (simp add: metricSinks_of_def scenario_policy_def key_eval)

lemma scenario_keys:
  "map target_key (otel_targets (policy_sinks (Some scenario_policy)))
     = [''m:4317'', ''m:4317'', ''m:4:317'']"
  by (simp add: policy_sinks_def scenario_policy_def key_eval)

lemma scenario_override:
  "policy_override (Some scenario_policy) =
     Some \<lparr>strings_memory = (\<lambda>a. if a = 0 then ''custom_'' else ''server''),
           api_InclusionPrefixs = \<lparr>slice_ptr = 0, slice_len = 2, slice_cap = 2\<rparr>,
           api_InclusionSuffixs = nil_slice, api_InclusionRegexps = nil_slice\<rparr>"
  by (simp add: policy_override_def scenario_policy_def)

lemma upt_0_2: "[0..<2] = [0, Suc 0]"
  by (simp add: upt_rec)

lemma scenario_matcher:
  "ProxyStatsMatcher_of (Some scenario_policy) =
     \<lparr>InclusionPrefixs = [''custom_'', ''server'', ''cluster_manager'', ''listener_manager'',
                          ''server'', ''cluster.xds-grpc''],
      InclusionSuffixs = [], InclusionRegexps = []\<rparr>"
  by (simp add: ProxyStatsMatcher_of_present [OF scenario_override] slice_elems_def upt_0_2
      nil_slice_def)

lemma scenario_values_one_line:
  "values_one_line js (bootstrapParameters_of (Some scenario_policy))"
  by (simp add: values_one_line_def scenario_sinks scenario_matcher)

lemma absent_override: "policy_override None = None"
  by (simp add: policy_override_def)

lemma absent_sinks: "metricSinks_of None = []"
  by (simp add: metricSinks_of_def)

lemma absent_values_one_line:
  "values_one_line js (bootstrapParameters_of None)"
  by (simp add: values_one_line_def absent_sinks ProxyStatsMatcher_of_absent [OF absent_override])

text \<open>
  Only the inclusion patterns and the sink clusters hold values of the policy; the other
  sections are lines of the text as they stand.
\<close>

lemma rendered_lines_struct:
  "rendered_lines js proxyMetrics =
     admin_section (AdminServer (bootstrapParameters_of proxyMetrics))
     @ [''stats_config:'', ''  stats_matcher:'', ''    inclusion_list:'', ''      patterns:'']
     @ text_lines_of (concat (map prefix_pattern (InclusionPrefixs (ProxyStatsMatcher_of proxyMetrics))))
     @ text_lines_of (concat (map suffix_pattern (InclusionSuffixs (ProxyStatsMatcher_of proxyMetrics))))
     @ text_lines_of (concat (map (regex_pattern js) (InclusionRegexps (ProxyStatsMatcher_of proxyMetrics))))
     @ dynamic_resources_section
     @ stats_sinks_section (metricSinks_of proxyMetrics)
     @ listeners_section (bootstrapParameters_of proxyMetrics)
     @ [''  clusters:'']
     @ (if enablePrometheus_of proxyMetrics
        then prometheus_cluster (AdminServer (bootstrapParameters_of proxyMetrics)) else [])
     @ text_lines_of (concat (map otel_cluster (enumerate 0 (metricSinks_of proxyMetrics))))
     @ xds_cluster (XdsServer (bootstrapParameters_of proxyMetrics))
     @ layered_runtime_section"
proof -
  let ?p = "bootstrapParameters_of proxyMetrics"
  have a: "text_lines_of (admin_section (AdminServer ?p)) = admin_section (AdminServer ?p)"
    by (rule chunks_one_line, rule ol_admin) (simp_all add: AdminServer_of)
  have h: "text_lines_of [''stats_config:'', ''  stats_matcher:'', ''    inclusion_list:'',
        ''      patterns:'']
      = [''stats_config:'', ''  stats_matcher:'', ''    inclusion_list:'', ''      patterns:'']"
    by (rule chunks_one_line) simp
  have d: "text_lines_of dynamic_resources_section = dynamic_resources_section"
    by (rule chunks_one_line) (rule ol_simple)
  have s: "text_lines_of (stats_sinks_section (metricSinks_of proxyMetrics))
      = stats_sinks_section (metricSinks_of proxyMetrics)"
    by (rule chunks_one_line) (rule ol_stats_sinks)
  have l: "text_lines_of (listeners_section ?p) = listeners_section ?p"
    by (rule chunks_one_line, rule ol_listeners) (simp_all add: ReadyServer_of)
  have c: "text_lines_of [''  clusters:''] = [''  clusters:'']"
    by (rule chunks_one_line) simp
  have m: "text_lines_of (prometheus_cluster (AdminServer ?p)) = prometheus_cluster (AdminServer ?p)"
    by (rule chunks_one_line, rule ol_simple) (simp add: AdminServer_of)
  have x: "text_lines_of (xds_cluster (XdsServer ?p)) = xds_cluster (XdsServer ?p)"
    by (rule chunks_one_line, rule ol_simple) (simp add: XdsServer_of)
  have r: "text_lines_of layered_runtime_section = layered_runtime_section"
    by (rule chunks_one_line) (rule ol_simple)
  have i: "text_lines_of (if enablePrometheus_of proxyMetrics
          then prometheus_cluster (AdminServer ?p) else [])
      = (if enablePrometheus_of proxyMetrics then prometheus_cluster (AdminServer ?p) else [])"
    by (cases "enablePrometheus_of proxyMetrics") (simp_all only: if_True if_False m text_lines_of_Nil)
  show ?thesis
    by (simp only: rendered_lines_chunks bootstrapTmpl_lines_def stats_config_section_def
          clusters_section_def text_lines_of_append a h d s l c i x r
          OtelMetricSinks_of EnablePrometheus_of StatsMatcher_of append_assoc)
qed

subsection \<open>Targets and sinks\<close>

lemma otel_targets_append: "otel_targets (xs @ ys) = otel_targets xs @ otel_targets ys"
  by (induction xs) (simp_all split: option.splits)

lemma otel_targets_filter:
  "otel_targets (filter (\<lambda>s. OpenTelemetry s \<noteq> None) xs) = otel_targets xs"
  by (induction xs) (auto split: option.splits)

lemma length_otel_targets:
  "length (otel_targets xs) = length (filter (\<lambda>s. OpenTelemetry s \<noteq> None) xs)"
  by (induction xs) (auto split: option.splits)

lemma otel_targets_Nil_iff:
  "otel_targets xs = [] \<longleftrightarrow> list_all (\<lambda>s. OpenTelemetry s = None) xs"
  by (induction xs) (simp_all split: option.splits)

lemma first_occurrences_Nil_iff: "first_occurrences key xs = [] \<longleftrightarrow> xs = []"
  by (cases xs) simp_all

lemma length_first_occurrences_le: "length (first_occurrences key xs) \<le> length xs"
proof (induction key xs rule: first_occurrences.induct)
  case (1 key)
  then show ?case by simp
next
  case (2 key x xs)
  have "length (filter (\<lambda>y. key y \<noteq> key x) xs) \<le> length xs" by (rule length_filter_le)
  with 2 have "length (first_occurrences key (filter (\<lambda>y. key y \<noteq> key x) xs)) \<le> length xs"
    by (rule order_trans)
  then show ?case by simp
qed

lemma length_metricSinks_of:
  "length (metricSinks_of proxyMetrics)
     = card (set (map target_key (otel_targets (policy_sinks proxyMetrics))))"
  by (simp add: metricSinks_of_eq length_first_occurrences)

lemma keys_metricSinks_of:
  "map sink_key (metricSinks_of proxyMetrics)
     = first_occurrences (\<lambda>k. k) (map target_key (otel_targets (policy_sinks proxyMetrics)))"
proof -
  have "map sink_key (map to_metricSink ts) = map target_key ts" for ts
    by (simp add: sink_key_to_metricSink)
  then show ?thesis
    by (simp only: metricSinks_of_eq map_first_occurrences)
qed

lemma metricSinks_of_Nil_iff:
  "metricSinks_of proxyMetrics = []
     \<longleftrightarrow> list_all (\<lambda>s. OpenTelemetry s = None) (policy_sinks proxyMetrics)"
  by (simp add: metricSinks_of_eq first_occurrences_Nil_iff otel_targets_Nil_iff)

lemma enablePrometheus_of_iff:
  "enablePrometheus_of proxyMetrics = (\<exists>pm prom. proxyMetrics = Some pm \<and> Prometheus pm = Some prom)"
  by (simp add: enablePrometheus_of_def split: option.splits)

subsection \<open>The policy with a suffix that holds line breaks\<close>

lemma suffix_injection_override:
  \<open>policy_override (Some suffix_injection_policy) =
     Some \<lparr>strings_memory =
                (\<lambda>a. ''x"'' @ [CHR 0x0A] @ ''                  prefix: /stats/prometheus''
                       @ [CHR 0x0A] @ ''  - name: prometheus_stats''
                       @ [CHR 0x0A] @ ''stats_sinks:''
                       @ [CHR 0x0A] @ ''- name: "envoy.stat_sinks.open_telemetry"''
                       @ [CHR 0x0A] @ ''      - suffix: "y''),
           api_InclusionPrefixs = nil_slice,
           api_InclusionSuffixs = \<lparr>slice_ptr = 0, slice_len = 1, slice_cap = 1\<rparr>,
           api_InclusionRegexps = nil_slice\<rparr>\<close>
  by (simp add: policy_override_def suffix_injection_policy_def)

lemma suffix_injection_matcher:
  \<open>ProxyStatsMatcher_of (Some suffix_injection_policy) =
     \<lparr>InclusionPrefixs = [''cluster_manager'', ''listener_manager'', ''server'', ''cluster.xds-grpc''],
      InclusionSuffixs =
        [''x"'' @ [CHR 0x0A] @ ''                  prefix: /stats/prometheus''
           @ [CHR 0x0A] @ ''  - name: prometheus_stats''
           @ [CHR 0x0A] @ ''stats_sinks:''
           @ [CHR 0x0A] @ ''- name: "envoy.stat_sinks.open_telemetry"''
           @ [CHR 0x0A] @ ''      - suffix: "y''],
      InclusionRegexps = []\<rparr>\<close>
  by (simp add: ProxyStatsMatcher_of_present [OF suffix_injection_override] slice_elems_def
      nil_slice_def append_strings_def)

lemma suffix_injection_sinks: "metricSinks_of (Some suffix_injection_policy) = []"
  by (simp add: metricSinks_of_def suffix_injection_policy_def)

lemma suffix_injection_prometheus: "enablePrometheus_of (Some suffix_injection_policy) = False"
  by (simp add: enablePrometheus_of_def suffix_injection_policy_def)

lemma suffix_injection_lines:
  \<open>text_lines_of (concat (map suffix_pattern
      [''x"'' @ [CHR 0x0A] @ ''                  prefix: /stats/prometheus''
         @ [CHR 0x0A] @ ''  - name: prometheus_stats''
         @ [CHR 0x0A] @ ''stats_sinks:''
         @ [CHR 0x0A] @ ''- name: "envoy.stat_sinks.open_telemetry"''
         @ [CHR 0x0A] @ ''      - suffix: "y'']))
   = [''      - suffix: "x"'',
      ''                  prefix: /stats/prometheus'',
      ''  - name: prometheus_stats'',
      ''stats_sinks:'',
      ''- name: "envoy.stat_sinks.open_telemetry"'',
      ''      - suffix: "y"'']\<close>
  by (simp add: suffix_pattern_def text_lines_of_Cons)

lemma baseline_prefix_lines:
  \<open>text_lines_of (concat (map prefix_pattern
        [''cluster_manager'', ''listener_manager'', ''server'', ''cluster.xds-grpc'']))
      = concat (map prefix_pattern
        [''cluster_manager'', ''listener_manager'', ''server'', ''cluster.xds-grpc''])\<close>
  by (rule chunks_one_line) (simp add: prefix_pattern_def)

lemma suffix_injection_rendered:
  \<open>rendered_lines js (Some suffix_injection_policy) =
     admin_section (AdminServer (bootstrapParameters_of (Some suffix_injection_policy)))
     @ [''stats_config:'', ''  stats_matcher:'', ''    inclusion_list:'', ''      patterns:'']
     @ concat (map prefix_pattern
        [''cluster_manager'', ''listener_manager'', ''server'', ''cluster.xds-grpc''])
     @ [''      - suffix: "x"'',
        ''                  prefix: /stats/prometheus'',
        ''  - name: prometheus_stats'',
        ''stats_sinks:'',
        ''- name: "envoy.stat_sinks.open_telemetry"'',
        ''      - suffix: "y"'']
     @ dynamic_resources_section
     @ listeners_section (bootstrapParameters_of (Some suffix_injection_policy))
     @ [''  clusters:'']
     @ xds_cluster (XdsServer (bootstrapParameters_of (Some suffix_injection_policy)))
     @ layered_runtime_section\<close>
  by (simp only: rendered_lines_struct suffix_injection_matcher suffix_injection_sinks
        suffix_injection_prometheus if_False ProxyStatsMatcherParameters.simps
        list.map(1) concat.simps(1) enumerate_simps text_lines_of_Nil
        baseline_prefix_lines suffix_injection_lines stats_sinks_section_def if_True
        append_Nil append_Nil2 simp_thms)

subsection \<open>C1: one sink cluster per distinct key, in first-occurrence order\<close>

lemma otel_cluster_blocks:
  \<open>concat (map otel_cluster (enumerate n (map to_metricSink ts))) =
     concat (map (\<lambda>(idx, ot).
        [''  - name: otel_metric_sink_'' @ decimal idx,
         ''    connect_timeout: 0.250s'',
         ''    type: STRICT_DNS'',
         ''    typed_extension_protocol_options:'',
         ''      envoy.extensions.upstreams.http.v3.HttpProtocolOptions:'',
         ''        "@type": "type.googleapis.com/envoy.extensions.upstreams.http.v3.HttpProtocolOptions"'',
         ''        explicit_http_config:'',
         ''          http2_protocol_options: {}'',
         ''    lb_policy: ROUND_ROBIN'',
         ''    load_assignment:'',
         ''      cluster_name: otel_metric_sink_'' @ decimal idx,
         ''      endpoints:'',
         ''      - lb_endpoints:'',
         ''        - endpoint:'',
         ''            address:'',
         ''              socket_address:'',
         ''                address: '' @ Host ot,
         ''                port_value: '' @ fmt_d (sint (Port ot))])
       (enumerate n ts))\<close>
  by (induction ts arbitrary: n) (simp_all add: otel_cluster_def to_metricSink_def)

lemma rendered_lines_around_clusters:
  assumes "values_one_line js (bootstrapParameters_of proxyMetrics)"
  shows "\<exists>before after.
      rendered_lines js proxyMetrics
        = before
          @ concat (map otel_cluster (enumerate 0 (metricSinks_of proxyMetrics)))
          @ after
      \<and> filter is_otel_cluster_name before = []
      \<and> filter is_otel_cluster_name after = []"
proof -
  let ?p = "bootstrapParameters_of proxyMetrics"
  let ?before = "admin_section (AdminServer ?p) @ stats_config_section js (StatsMatcher ?p)
      @ dynamic_resources_section @ stats_sinks_section (OtelMetricSinks ?p)
      @ listeners_section ?p @ [''  clusters:'']
      @ (if EnablePrometheus ?p then prometheus_cluster (AdminServer ?p) else [])"
  let ?after = "xds_cluster (XdsServer ?p) @ layered_runtime_section"
  have l: "rendered_lines js proxyMetrics
      = ?before @ concat (map otel_cluster (enumerate 0 (metricSinks_of proxyMetrics))) @ ?after"
    by (simp only: rendered_lines_eq [OF assms] bootstrapTmpl_lines_def clusters_section_def
          append_assoc OtelMetricSinks_of)
  have h: "\<not> is_otel_cluster_name ''  clusters:''" by (simp add: is_otel_cluster_name_def)
  have b: "filter is_otel_cluster_name ?before = []"
    by (cases "EnablePrometheus ?p")
       (simp_all only: filter_append cn_blocks cn_stats_config cn_stats_sinks cn_listeners
          filter.simps h if_False if_True append_Nil)
  have a: "filter is_otel_cluster_name ?after = []"
    by (simp only: filter_append cn_blocks append_Nil)
  from l b a show ?thesis by blast
qed



lemma host_injection_sinks:
  "metricSinks_of (Some host_injection_policy) =
     [\<lparr>sink_Address = ''h'' @ [CHR 0x0A] @ ''  - name: otel_metric_sink_9'', sink_Port = 4317\<rparr>]"
  by (simp add: metricSinks_of_def host_injection_policy_def)

lemma host_injection_cluster_names:
  "filter is_otel_cluster_name
     (text_lines_of (concat (map otel_cluster (enumerate 0 (metricSinks_of (Some host_injection_policy))))))
   = [''  - name: otel_metric_sink_0'', ''  - name: otel_metric_sink_9'']"
  by (simp add: host_injection_sinks otel_cluster_def text_lines_of_Cons is_otel_cluster_name_def
        fmt_d_def decimal_eval digit_char_def)


subsection \<open>C2: the prefix patterns are the caller's, then the baseline\<close>

lemma concat_prefix_pattern:
  \<open>concat (map prefix_pattern xs) = map (\<lambda>s. ''      - prefix: "'' @ s @ ''"'') xs\<close>
  by (induction xs) (simp_all add: prefix_pattern_def)

lemma patterns_header_then_prefixes:
  \<open>sublist ([''      patterns:''] @ concat (map prefix_pattern (InclusionPrefixs (StatsMatcher p))))
     (bootstrapTmpl_lines js p)\<close>
proof -
  have \<open>bootstrapTmpl_lines js p =
      (admin_section (AdminServer p)
         @ [''stats_config:'', ''  stats_matcher:'', ''    inclusion_list:''])
      @ ([''      patterns:''] @ concat (map prefix_pattern (InclusionPrefixs (StatsMatcher p))))
      @ (concat (map suffix_pattern (InclusionSuffixs (StatsMatcher p)))
         @ concat (map (regex_pattern js) (InclusionRegexps (StatsMatcher p)))
         @ dynamic_resources_section
         @ stats_sinks_section (OtelMetricSinks p)
         @ listeners_section p
         @ clusters_section p
         @ layered_runtime_section)\<close>
    by (simp only: bootstrapTmpl_lines_def stats_config_section_def append_assoc append_Cons
          append_Nil)
  then show ?thesis by (simp only: sublist_appendI)
qed



lemma prefix_injection_override:
  \<open>policy_override (Some prefix_injection_policy) =
     Some \<lparr>strings_memory = (\<lambda>a. ''a"'' @ [CHR 0x0A] @ ''      - prefix: "b''),
           api_InclusionPrefixs = \<lparr>slice_ptr = 0, slice_len = 1, slice_cap = 1\<rparr>,
           api_InclusionSuffixs = nil_slice, api_InclusionRegexps = nil_slice\<rparr>\<close>
  by (simp add: policy_override_def prefix_injection_policy_def)

lemma prefix_injection_matcher:
  \<open>ProxyStatsMatcher_of (Some prefix_injection_policy) =
     \<lparr>InclusionPrefixs = [''a"'' @ [CHR 0x0A] @ ''      - prefix: "b'', ''cluster_manager'',
                          ''listener_manager'', ''server'', ''cluster.xds-grpc''],
      InclusionSuffixs = [], InclusionRegexps = []\<rparr>\<close>
  by (simp add: ProxyStatsMatcher_of_present [OF prefix_injection_override] slice_elems_def
      nil_slice_def)

lemma prefix_injection_patterns:
  \<open>filter is_prefix_pattern
     (text_lines_of (concat (map prefix_pattern
        [''a"'' @ [CHR 0x0A] @ ''      - prefix: "b'', ''cluster_manager'',
         ''listener_manager'', ''server'', ''cluster.xds-grpc''])))
   = [''      - prefix: "a"'', ''      - prefix: "b"'',
      ''      - prefix: "cluster_manager"'', ''      - prefix: "listener_manager"'',
      ''      - prefix: "server"'', ''      - prefix: "cluster.xds-grpc"'']\<close>
  by (simp add: prefix_pattern_def text_lines_of_Cons is_prefix_pattern_def)


subsection \<open>C3: the Prometheus route and cluster\<close>

lemma sublist_listeners: "sublist (listeners_section p) (bootstrapTmpl_lines js p)"
proof -
  have "bootstrapTmpl_lines js p =
      (admin_section (AdminServer p) @ stats_config_section js (StatsMatcher p)
        @ dynamic_resources_section @ stats_sinks_section (OtelMetricSinks p))
      @ listeners_section p @ (clusters_section p @ layered_runtime_section)"
    by (simp only: bootstrapTmpl_lines_def append_assoc)
  then show ?thesis by (simp only: sublist_appendI)
qed

lemma sublist_clusters: "sublist (clusters_section p) (bootstrapTmpl_lines js p)"
proof -
  have "bootstrapTmpl_lines js p =
      (admin_section (AdminServer p) @ stats_config_section js (StatsMatcher p)
        @ dynamic_resources_section @ stats_sinks_section (OtelMetricSinks p)
        @ listeners_section p)
      @ clusters_section p @ layered_runtime_section"
    by (simp only: bootstrapTmpl_lines_def append_assoc)
  then show ?thesis by (simp only: sublist_appendI)
qed

lemma sublist_route:
  "EnablePrometheus p \<Longrightarrow> sublist prometheus_route (bootstrapTmpl_lines js p)"
proof -
  assume e: "EnablePrometheus p"
  have "sublist prometheus_route (listeners_section p)"
    unfolding listeners_section_def using e
    by (simp only: if_True) (rule sublist_appendI)
  then show ?thesis
    using sublist_listeners by (rule sublist_order.order_trans)
qed

lemma sublist_prom_cluster:
  "EnablePrometheus p \<Longrightarrow> sublist (prometheus_cluster (AdminServer p)) (bootstrapTmpl_lines js p)"
proof -
  assume e: "EnablePrometheus p"
  have "sublist (prometheus_cluster (AdminServer p)) (clusters_section p)"
    unfolding clusters_section_def using e
    by (simp only: if_True) (rule sublist_appendI)
  then show ?thesis
    using sublist_clusters by (rule sublist_order.order_trans)
qed

lemma prometheus_cluster_fixed:
  "prometheus_cluster
     \<lparr>admin_Address = ''127.0.0.1'', admin_Port = 19000, AccessLogPath = ''/dev/null''\<rparr> =
    [''  - name: prometheus_stats'',
     ''    connect_timeout: 0.250s'',
     ''    type: STATIC'',
     ''    lb_policy: ROUND_ROBIN'',
     ''    load_assignment:'',
     ''      cluster_name: prometheus_stats'',
     ''      endpoints:'',
     ''      - lb_endpoints:'',
     ''        - endpoint:'',
     ''            address:'',
     ''              socket_address:'',
     ''                address: 127.0.0.1'',
     ''                port_value: 19000'']"
  by (simp add: prometheus_cluster_def fmt_d_def decimal_eval digit_char_def)




subsection \<open>C4: the absent policy\<close>

lemma StatsMatcher_None:
  "StatsMatcher (bootstrapParameters_of None) =
     \<lparr>InclusionPrefixs = [''cluster_manager'', ''listener_manager'', ''server'', ''cluster.xds-grpc''],
      InclusionSuffixs = [], InclusionRegexps = []\<rparr>"
  by (simp only: StatsMatcher_of ProxyStatsMatcher_of_absent [OF absent_override])

lemma absent_admin_section:
  \<open>admin_section (AdminServer (bootstrapParameters_of None)) =
    [''admin:'',
     ''  access_log:'',
     ''  - name: envoy.access_loggers.file'',
     ''    typed_config:'',
     ''      "@type": type.googleapis.com/envoy.extensions.access_loggers.file.v3.FileAccessLog'',
     ''      path: /dev/null'',
     ''  address:'',
     ''    socket_address:'',
     ''      address: 127.0.0.1'',
     ''      port_value: 19000'']\<close>
  by (simp add: AdminServer_of admin_section_def fmt_d_def decimal_eval digit_char_def)

lemma absent_stats_config_section:
  \<open>stats_config_section js (StatsMatcher (bootstrapParameters_of None)) =
    [''stats_config:'',
     ''  stats_matcher:'',
     ''    inclusion_list:'',
     ''      patterns:'',
     ''      - prefix: "cluster_manager"'',
     ''      - prefix: "listener_manager"'',
     ''      - prefix: "server"'',
     ''      - prefix: "cluster.xds-grpc"'']\<close>
  by (simp only: StatsMatcher_None) (simp add: stats_config_section_def prefix_pattern_def)

lemma absent_listeners_section:
  \<open>listeners_section (bootstrapParameters_of None) =
    [''static_resources:'',
     ''  listeners:'',
     ''  - name: envoy-gateway-proxy-ready-0.0.0.0-19001'',
     ''    address:'',
     ''      socket_address:'',
     ''        address: 0.0.0.0'',
     ''        port_value: 19001'',
     ''        protocol: TCP'',
     ''    filter_chains:'',
     ''    - filters:'',
     ''      - name: envoy.filters.network.http_connection_manager'',
     ''        typed_config:'',
     ''          "@type": type.googleapis.com/envoy.extensions.filters.network.http_connection_manager.v3.HttpConnectionManager'',
     ''          stat_prefix: eg-ready-http'',
     ''          route_config:'',
     ''            name: local_route'',
     ''          http_filters:'',
     ''          - name: envoy.filters.http.health_check'',
     ''            typed_config:'',
     ''              "@type": type.googleapis.com/envoy.extensions.filters.http.health_check.v3.HealthCheck'',
     ''              pass_through_mode: false'',
     ''              headers:'',
     ''              - name: ":path"'',
     ''                string_match:'',
     ''                  exact: /ready'',
     ''          - name: envoy.filters.http.router'',
     ''            typed_config:'',
     ''              "@type": type.googleapis.com/envoy.extensions.filters.http.router.v3.Router'']\<close>
proof -
  have e: "EnablePrometheus (bootstrapParameters_of None) = False"
    by (simp add: enablePrometheus_of_def)
  show ?thesis
    by (simp only: listeners_section_def e if_False ReadyServer_of)
       (simp add: fmt_d_def decimal_eval digit_char_def)
qed

lemma absent_clusters_section:
  \<open>clusters_section (bootstrapParameters_of None) =
    [''  clusters:'',
     ''  - connect_timeout: 10s'',
     ''    load_assignment:'',
     ''      cluster_name: xds_cluster'',
     ''      endpoints:'',
     ''      - lb_endpoints:'',
     ''        - endpoint:'',
     ''            address:'',
     ''              socket_address:'',
     ''                address: envoy-gateway'',
     ''                port_value: 18000'',
     ''    typed_extension_protocol_options:'',
     ''      envoy.extensions.upstreams.http.v3.HttpProtocolOptions:'',
     ''        "@type": "type.googleapis.com/envoy.extensions.upstreams.http.v3.HttpProtocolOptions"'',
     ''        explicit_http_config:'',
     ''          http2_protocol_options: {}'',
     ''    name: xds_cluster'',
     ''    type: STRICT_DNS'',
     ''    transport_socket:'',
     ''      name: envoy.transport_sockets.tls'',
     ''      typed_config:'',
     ''        "@type": type.googleapis.com/envoy.extensions.transport_sockets.tls.v3.UpstreamTlsContext'',
     ''        common_tls_context:'',
     ''          tls_params:'',
     ''            tls_maximum_protocol_version: TLSv1_3'',
     ''          tls_certificate_sds_secret_configs:'',
     ''          - name: xds_certificate'',
     ''            sds_config:'',
     ''              path_config_source:'',
     ''                path: "/sds/xds-certificate.json"'',
     ''              resource_api_version: V3'',
     ''          validation_context_sds_secret_config:'',
     ''            name: xds_trusted_ca'',
     ''            sds_config:'',
     ''              path_config_source:'',
     ''                path: "/sds/xds-trusted-ca.json"'',
     ''              resource_api_version: V3'']\<close>
proof -
  have e: "EnablePrometheus (bootstrapParameters_of None) = False"
    by (simp add: enablePrometheus_of_def)
  show ?thesis
    by (simp only: clusters_section_def e if_False XdsServer_of OtelMetricSinks_of absent_sinks
          enumerate_simps list.map(1) concat.simps(1))
       (simp add: xds_cluster_def fmt_d_def decimal_eval digit_char_def)
qed

lemma absent_lines:
  \<open>bootstrapTmpl_lines js (bootstrapParameters_of None) =
      [''admin:'',
       ''  access_log:'',
       ''  - name: envoy.access_loggers.file'',
       ''    typed_config:'',
       ''      "@type": type.googleapis.com/envoy.extensions.access_loggers.file.v3.FileAccessLog'',
       ''      path: /dev/null'',
       ''  address:'',
       ''    socket_address:'',
       ''      address: 127.0.0.1'',
       ''      port_value: 19000'',
       ''stats_config:'',
       ''  stats_matcher:'',
       ''    inclusion_list:'',
       ''      patterns:'',
       ''      - prefix: "cluster_manager"'',
       ''      - prefix: "listener_manager"'',
       ''      - prefix: "server"'',
       ''      - prefix: "cluster.xds-grpc"'',
       ''dynamic_resources:'',
       ''  ads_config:'',
       ''    api_type: DELTA_GRPC'',
       ''    transport_api_version: V3'',
       ''    grpc_services:'',
       ''    - envoy_grpc:'',
       ''        cluster_name: xds_cluster'',
       ''    set_node_on_first_message_only: true'',
       ''  lds_config:'',
       ''    ads: {}'',
       ''    resource_api_version: V3'',
       ''  cds_config:'',
       ''    ads: {}'',
       ''    resource_api_version: V3'',
       ''static_resources:'',
       ''  listeners:'',
       ''  - name: envoy-gateway-proxy-ready-0.0.0.0-19001'',
       ''    address:'',
       ''      socket_address:'',
       ''        address: 0.0.0.0'',
       ''        port_value: 19001'',
       ''        protocol: TCP'',
       ''    filter_chains:'',
       ''    - filters:'',
       ''      - name: envoy.filters.network.http_connection_manager'',
       ''        typed_config:'',
       ''          "@type": type.googleapis.com/envoy.extensions.filters.network.http_connection_manager.v3.HttpConnectionManager'',
       ''          stat_prefix: eg-ready-http'',
       ''          route_config:'',
       ''            name: local_route'',
       ''          http_filters:'',
       ''          - name: envoy.filters.http.health_check'',
       ''            typed_config:'',
       ''              "@type": type.googleapis.com/envoy.extensions.filters.http.health_check.v3.HealthCheck'',
       ''              pass_through_mode: false'',
       ''              headers:'',
       ''              - name: ":path"'',
       ''                string_match:'',
       ''                  exact: /ready'',
       ''          - name: envoy.filters.http.router'',
       ''            typed_config:'',
       ''              "@type": type.googleapis.com/envoy.extensions.filters.http.router.v3.Router'',
       ''  clusters:'',
       ''  - connect_timeout: 10s'',
       ''    load_assignment:'',
       ''      cluster_name: xds_cluster'',
       ''      endpoints:'',
       ''      - lb_endpoints:'',
       ''        - endpoint:'',
       ''            address:'',
       ''              socket_address:'',
       ''                address: envoy-gateway'',
       ''                port_value: 18000'',
       ''    typed_extension_protocol_options:'',
       ''      envoy.extensions.upstreams.http.v3.HttpProtocolOptions:'',
       ''        "@type": "type.googleapis.com/envoy.extensions.upstreams.http.v3.HttpProtocolOptions"'',
       ''        explicit_http_config:'',
       ''          http2_protocol_options: {}'',
       ''    name: xds_cluster'',
       ''    type: STRICT_DNS'',
       ''    transport_socket:'',
       ''      name: envoy.transport_sockets.tls'',
       ''      typed_config:'',
       ''        "@type": type.googleapis.com/envoy.extensions.transport_sockets.tls.v3.UpstreamTlsContext'',
       ''        common_tls_context:'',
       ''          tls_params:'',
       ''            tls_maximum_protocol_version: TLSv1_3'',
       ''          tls_certificate_sds_secret_configs:'',
       ''          - name: xds_certificate'',
       ''            sds_config:'',
       ''              path_config_source:'',
       ''                path: "/sds/xds-certificate.json"'',
       ''              resource_api_version: V3'',
       ''          validation_context_sds_secret_config:'',
       ''            name: xds_trusted_ca'',
       ''            sds_config:'',
       ''              path_config_source:'',
       ''                path: "/sds/xds-trusted-ca.json"'',
       ''              resource_api_version: V3'',
       ''layered_runtime:'',
       ''  layers:'',
       ''  - name: runtime-0'',
       ''    rtds_layer:'',
       ''      rtds_config:'',
       ''        ads: {}'',
       ''        resource_api_version: V3'',
       ''      name: runtime-0'']\<close>
  by (simp only: bootstrapTmpl_lines_def absent_admin_section absent_stats_config_section
        absent_listeners_section absent_clusters_section OtelMetricSinks_of absent_sinks
        stats_sinks_section_def dynamic_resources_section_def layered_runtime_section_def
        simp_thms if_False append_Nil append_Cons)

text \<open>
  C4. With no policy, rendering succeeds and the returned text is the document below, line
  by line, each line ended by a line break: it has no sink cluster, no \<open>stats_sinks\<close>
  section, no Prometheus route or cluster, and an inclusion list that is exactly the four
  baseline prefixes, with no suffix pattern and no regular expression.
\<close>

theorem absent_policy_render:
  \<open>snd (GetRenderedBootstrapConfig (bootstrapTmpl js) None) = None
   \<and> rendered_lines js None =
       [''admin:'',
        ''  access_log:'',
        ''  - name: envoy.access_loggers.file'',
        ''    typed_config:'',
        ''      "@type": type.googleapis.com/envoy.extensions.access_loggers.file.v3.FileAccessLog'',
        ''      path: /dev/null'',
        ''  address:'',
        ''    socket_address:'',
        ''      address: 127.0.0.1'',
        ''      port_value: 19000'',
        ''stats_config:'',
        ''  stats_matcher:'',
        ''    inclusion_list:'',
        ''      patterns:'',
        ''      - prefix: "cluster_manager"'',
        ''      - prefix: "listener_manager"'',
        ''      - prefix: "server"'',
        ''      - prefix: "cluster.xds-grpc"'',
        ''dynamic_resources:'',
        ''  ads_config:'',
        ''    api_type: DELTA_GRPC'',
        ''    transport_api_version: V3'',
        ''    grpc_services:'',
        ''    - envoy_grpc:'',
        ''        cluster_name: xds_cluster'',
        ''    set_node_on_first_message_only: true'',
        ''  lds_config:'',
        ''    ads: {}'',
        ''    resource_api_version: V3'',
        ''  cds_config:'',
        ''    ads: {}'',
        ''    resource_api_version: V3'',
        ''static_resources:'',
        ''  listeners:'',
        ''  - name: envoy-gateway-proxy-ready-0.0.0.0-19001'',
        ''    address:'',
        ''      socket_address:'',
        ''        address: 0.0.0.0'',
        ''        port_value: 19001'',
        ''        protocol: TCP'',
        ''    filter_chains:'',
        ''    - filters:'',
        ''      - name: envoy.filters.network.http_connection_manager'',
        ''        typed_config:'',
        ''          "@type": type.googleapis.com/envoy.extensions.filters.network.http_connection_manager.v3.HttpConnectionManager'',
        ''          stat_prefix: eg-ready-http'',
        ''          route_config:'',
        ''            name: local_route'',
        ''          http_filters:'',
        ''          - name: envoy.filters.http.health_check'',
        ''            typed_config:'',
        ''              "@type": type.googleapis.com/envoy.extensions.filters.http.health_check.v3.HealthCheck'',
        ''              pass_through_mode: false'',
        ''              headers:'',
        ''              - name: ":path"'',
        ''                string_match:'',
        ''                  exact: /ready'',
        ''          - name: envoy.filters.http.router'',
        ''            typed_config:'',
        ''              "@type": type.googleapis.com/envoy.extensions.filters.http.router.v3.Router'',
        ''  clusters:'',
        ''  - connect_timeout: 10s'',
        ''    load_assignment:'',
        ''      cluster_name: xds_cluster'',
        ''      endpoints:'',
        ''      - lb_endpoints:'',
        ''        - endpoint:'',
        ''            address:'',
        ''              socket_address:'',
        ''                address: envoy-gateway'',
        ''                port_value: 18000'',
        ''    typed_extension_protocol_options:'',
        ''      envoy.extensions.upstreams.http.v3.HttpProtocolOptions:'',
        ''        "@type": "type.googleapis.com/envoy.extensions.upstreams.http.v3.HttpProtocolOptions"'',
        ''        explicit_http_config:'',
        ''          http2_protocol_options: {}'',
        ''    name: xds_cluster'',
        ''    type: STRICT_DNS'',
        ''    transport_socket:'',
        ''      name: envoy.transport_sockets.tls'',
        ''      typed_config:'',
        ''        "@type": type.googleapis.com/envoy.extensions.transport_sockets.tls.v3.UpstreamTlsContext'',
        ''        common_tls_context:'',
        ''          tls_params:'',
        ''            tls_maximum_protocol_version: TLSv1_3'',
        ''          tls_certificate_sds_secret_configs:'',
        ''          - name: xds_certificate'',
        ''            sds_config:'',
        ''              path_config_source:'',
        ''                path: "/sds/xds-certificate.json"'',
        ''              resource_api_version: V3'',
        ''          validation_context_sds_secret_config:'',
        ''            name: xds_trusted_ca'',
        ''            sds_config:'',
        ''              path_config_source:'',
        ''                path: "/sds/xds-trusted-ca.json"'',
        ''              resource_api_version: V3'',
        ''layered_runtime:'',
        ''  layers:'',
        ''  - name: runtime-0'',
        ''    rtds_layer:'',
        ''      rtds_config:'',
        ''        ads: {}'',
        ''        resource_api_version: V3'',
        ''      name: runtime-0'']
   \<and> fst (GetRenderedBootstrapConfig (bootstrapTmpl js) None)
       = concat (map (\<lambda>l. l @ [CHR 0x0A]) (rendered_lines js None))
   \<and> OtelMetricSinks (bootstrapParameters_of None) = []
   \<and> EnablePrometheus (bootstrapParameters_of None) = False
   \<and> StatsMatcher (bootstrapParameters_of None) =
       \<lparr>InclusionPrefixs = [''cluster_manager'', ''listener_manager'', ''server'', ''cluster.xds-grpc''],
        InclusionSuffixs = [], InclusionRegexps = []\<rparr>
   \<and> filter is_otel_cluster_name (rendered_lines js None) = []
   \<and> filter is_stats_sinks_line (rendered_lines js None) = []
   \<and> filter is_prometheus_marker (rendered_lines js None) = []
   \<and> filter is_pattern (rendered_lines js None) =
       [''      - prefix: "cluster_manager"'',
        ''      - prefix: "listener_manager"'',
        ''      - prefix: "server"'',
        ''      - prefix: "cluster.xds-grpc"'']\<close>
proof -
  let ?p = "bootstrapParameters_of None"
  have r: "rendered_lines js None = bootstrapTmpl_lines js ?p"
    by (rule rendered_lines_eq) (rule absent_values_one_line)
  have s: "OtelMetricSinks ?p = []" by (simp only: OtelMetricSinks_of absent_sinks)
  have e: "EnablePrometheus ?p = False" by (simp add: enablePrometheus_of_def)
  have 0: "snd (GetRenderedBootstrapConfig (bootstrapTmpl js) None) = None"
    by (simp only: GetRendered_bootstrapTmpl snd_conv)
  have t: "fst (GetRenderedBootstrapConfig (bootstrapTmpl js) None)
       = concat (map (\<lambda>l. l @ [CHR 0x0A]) (rendered_lines js None))"
    by (simp only: r GetRendered_bootstrapTmpl fst_conv unlines_def)
  have 1: "filter is_otel_cluster_name (rendered_lines js None) = []"
    by (simp only: r cn_lines s) simp
  have 2: "filter is_stats_sinks_line (rendered_lines js None) = []"
    by (simp only: r ss_lines s if_True simp_thms)
  have 3: "filter is_prometheus_marker (rendered_lines js None) = []"
    by (simp only: r pm_lines e if_False)
  have 4: \<open>filter is_pattern (rendered_lines js None) =
       [''      - prefix: "cluster_manager"'',
        ''      - prefix: "listener_manager"'',
        ''      - prefix: "server"'',
        ''      - prefix: "cluster.xds-grpc"'']\<close>
    by (simp only: r pt_lines StatsMatcher_None) (simp add: prefix_pattern_def)
  show ?thesis
    apply (intro conjI)
             apply (rule 0)
            apply (simp only: r absent_lines)
           apply (rule t)
          apply (rule s)
         apply (rule e)
        apply (rule StatsMatcher_None)
       apply (rule 1)
      apply (rule 2)
     apply (rule 3)
    apply (rule 4)
    done
qed

theorem absent_policy_render_witness:
  \<open>snd (GetRenderedBootstrapConfig (bootstrapTmpl (\<lambda>s. s)) None) = None
   \<and> filter is_pattern (rendered_lines (\<lambda>s. s) None) =
       [''      - prefix: "cluster_manager"'',
        ''      - prefix: "listener_manager"'',
        ''      - prefix: "server"'',
        ''      - prefix: "cluster.xds-grpc"'']
   \<and> filter is_otel_cluster_name (rendered_lines (\<lambda>s. s) None) = []\<close>
  using absent_policy_render [of "\<lambda>s. s"] by (elim conjE, intro conjI) assumption+

subsection \<open>C5: parameter building is total and skips sinks without a target\<close>

lemma sinks_loop_checked_eq: "sinks_loop_checked st xs = Inr (sinks_loop st xs)"
proof (induction st xs rule: sinks_loop.induct)
  case (1 st)
  then show ?case by simp
next
  case (2 addresses metricSinks sink rest)
  show ?case
  proof (cases "OpenTelemetry sink")
    case None
    with 2 show ?thesis by simp
  next
    case (Some ot)
    with 2 show ?thesis by (simp add: deref_def and_then_def Let_def)
  qed
qed

lemma bootstrapParameters_checked_eq:
  "bootstrapParameters_checked proxyMetrics = Inr (bootstrapParameters_of proxyMetrics)"
proof (cases proxyMetrics)
  case None
  then show ?thesis
    by (simp add: bootstrapParameters_checked_def bootstrapParameters_of_def and_then_def
        enablePrometheus_of_def metricSinks_of_def ProxyStatsMatcher_of_def case_prod_beta)
next
  case (Some pm)
  show ?thesis
  proof (cases "ProxyStatsMatcher pm")
    case None
    with Some show ?thesis
      by (cases "Prometheus pm")
         (simp_all add: bootstrapParameters_checked_def bootstrapParameters_of_def and_then_def
            deref_def sinks_loop_checked_eq enablePrometheus_of_def metricSinks_of_def
            ProxyStatsMatcher_of_def case_prod_beta)
  next
    case (Some sm)
    with \<open>proxyMetrics = Some pm\<close> show ?thesis
      by (cases "Prometheus pm")
         (simp_all add: bootstrapParameters_checked_def bootstrapParameters_of_def and_then_def
            deref_def sinks_loop_checked_eq enablePrometheus_of_def metricSinks_of_def
            ProxyStatsMatcher_of_def case_prod_beta)
  qed
qed

lemma ProxyStatsMatcher_of_closed:
  "ProxyStatsMatcher_of proxyMetrics =
     \<lparr>InclusionPrefixs =
        caller_prefixes proxyMetrics
          @ [''cluster_manager'', ''listener_manager'', ''server'', ''cluster.xds-grpc''],
      InclusionSuffixs =
        (case policy_override proxyMetrics of
           None \<Rightarrow> []
         | Some sm \<Rightarrow>
             slice_elems
               (fst (append_strings (strings_memory sm) (api_InclusionPrefixs sm)
                  [''cluster_manager'', ''listener_manager'', ''server'', ''cluster.xds-grpc'']))
               (api_InclusionSuffixs sm)),
      InclusionRegexps =
        (case policy_override proxyMetrics of
           None \<Rightarrow> []
         | Some sm \<Rightarrow>
             slice_elems
               (fst (append_strings (strings_memory sm) (api_InclusionPrefixs sm)
                  [''cluster_manager'', ''listener_manager'', ''server'', ''cluster.xds-grpc'']))
               (api_InclusionRegexps sm))\<rparr>"
proof (cases "policy_override proxyMetrics")
  case None
  then have "caller_prefixes proxyMetrics = []"
    by (cases proxyMetrics) (simp_all add: caller_prefixes_def policy_override_def)
  with None show ?thesis by (simp add: ProxyStatsMatcher_of_absent)
next
  case (Some sm)
  then have "caller_prefixes proxyMetrics
      = slice_elems (strings_memory sm) (api_InclusionPrefixs sm)"
    by (cases proxyMetrics) (simp_all add: caller_prefixes_def policy_override_def)
  with Some show ?thesis by (simp add: ProxyStatsMatcher_of_present)
qed

lemma params_ignore_non_otel:
  "bootstrapParameters_of (Some (pm\<lparr>Sinks := filter (\<lambda>s. OpenTelemetry s \<noteq> None) (Sinks pm)\<rparr>))
     = bootstrapParameters_of (Some pm)"
  by (simp add: bootstrapParameters_of_def metricSinks_of_eq policy_sinks_def otel_targets_filter
      enablePrometheus_of_def ProxyStatsMatcher_of_def del: not_None_eq)

text \<open>
  C5. Building the parameters never panics: with every read through a pointer written as
  a dereference that may fail, it returns the parameters for every policy, absent or not.
  Every field of the parameters is populated: the three server descriptors with the
  constants, the Prometheus flag from the presence of the sub-object, the sinks from the
  targets of the policy, the prefixes with the caller's followed by the baseline, the
  suffixes and regular expressions with what the caller's slices show once the baseline
  is appended. A sink entry without an OpenTelemetry target contributes nothing: removing
  all such entries, or one of them anywhere, leaves the parameters as they are, and the
  sinks are no more than the entries with a target.
\<close>

theorem parameters_total_and_skip_sinks_without_target:
  "bootstrapParameters_checked proxyMetrics = Inr (bootstrapParameters_of proxyMetrics)
   \<and> bootstrapParameters_of proxyMetrics =
       \<lparr>XdsServer = \<lparr>xds_Address = ''envoy-gateway'', xds_Port = 18000\<rparr>,
        AdminServer = \<lparr>admin_Address = ''127.0.0.1'', admin_Port = 19000,
                       AccessLogPath = ''/dev/null''\<rparr>,
        ReadyServer = \<lparr>ready_Address = ''0.0.0.0'', ready_Port = 19001,
                       ReadinessPath = ''/ready''\<rparr>,
        EnablePrometheus = (\<exists>pm prom. proxyMetrics = Some pm \<and> Prometheus pm = Some prom),
        OtelMetricSinks =
          map to_metricSink
            (first_occurrences target_key (otel_targets (policy_sinks proxyMetrics))),
        StatsMatcher =
          \<lparr>InclusionPrefixs =
             caller_prefixes proxyMetrics
               @ [''cluster_manager'', ''listener_manager'', ''server'', ''cluster.xds-grpc''],
           InclusionSuffixs =
             (case policy_override proxyMetrics of
                None \<Rightarrow> []
              | Some sm \<Rightarrow>
                  slice_elems
                    (fst (append_strings (strings_memory sm) (api_InclusionPrefixs sm)
                       [''cluster_manager'', ''listener_manager'', ''server'',
                        ''cluster.xds-grpc'']))
                    (api_InclusionSuffixs sm)),
           InclusionRegexps =
             (case policy_override proxyMetrics of
                None \<Rightarrow> []
              | Some sm \<Rightarrow>
                  slice_elems
                    (fst (append_strings (strings_memory sm) (api_InclusionPrefixs sm)
                       [''cluster_manager'', ''listener_manager'', ''server'',
                        ''cluster.xds-grpc'']))
                    (api_InclusionRegexps sm))\<rparr>\<rparr>
   \<and> bootstrapParameters_of
        (Some (pm\<lparr>Sinks := filter (\<lambda>s. OpenTelemetry s \<noteq> None) (Sinks pm)\<rparr>))
     = bootstrapParameters_of (Some pm)
   \<and> bootstrapParameters_of (Some (pm\<lparr>Sinks := xs @ [\<lparr>OpenTelemetry = None\<rparr>] @ ys\<rparr>))
     = bootstrapParameters_of (Some (pm\<lparr>Sinks := xs @ ys\<rparr>))
   \<and> length (OtelMetricSinks (bootstrapParameters_of proxyMetrics))
     \<le> length (filter (\<lambda>s. OpenTelemetry s \<noteq> None) (policy_sinks proxyMetrics))"
proof -
  have 1: "bootstrapParameters_of proxyMetrics =
       \<lparr>XdsServer = \<lparr>xds_Address = ''envoy-gateway'', xds_Port = 18000\<rparr>,
        AdminServer = \<lparr>admin_Address = ''127.0.0.1'', admin_Port = 19000,
                       AccessLogPath = ''/dev/null''\<rparr>,
        ReadyServer = \<lparr>ready_Address = ''0.0.0.0'', ready_Port = 19001,
                       ReadinessPath = ''/ready''\<rparr>,
        EnablePrometheus = enablePrometheus_of proxyMetrics,
        OtelMetricSinks = metricSinks_of proxyMetrics,
        StatsMatcher = ProxyStatsMatcher_of proxyMetrics\<rparr>"
    by (simp add: bootstrapParameters_of_def envoyGatewayXdsServerHost_def
        DefaultXdsServerPort_def envoyAdminAddress_def envoyAdminPort_def
        envoyAdminAccessLogPath_def envoyReadinessAddress_def EnvoyReadinessPort_def
        EnvoyReadinessPath_def)
  have 2: "bootstrapParameters_of (Some (pm\<lparr>Sinks := xs @ [\<lparr>OpenTelemetry = None\<rparr>] @ ys\<rparr>))
     = bootstrapParameters_of (Some (pm\<lparr>Sinks := xs @ ys\<rparr>))"
    by (simp add: bootstrapParameters_of_def metricSinks_of_eq policy_sinks_def otel_targets_append
      enablePrometheus_of_def ProxyStatsMatcher_of_def)
  have 4: "length (OtelMetricSinks (bootstrapParameters_of proxyMetrics))
     \<le> length (filter (\<lambda>s. OpenTelemetry s \<noteq> None) (policy_sinks proxyMetrics))"
    using length_first_occurrences_le [of target_key "otel_targets (policy_sinks proxyMetrics)"]
    by (simp add: metricSinks_of_eq length_otel_targets del: not_None_eq)
  show ?thesis
    apply (intro conjI)
        apply (rule bootstrapParameters_checked_eq)
       apply (subst 1)
       apply (simp only: enablePrometheus_of_iff metricSinks_of_eq ProxyStatsMatcher_of_closed)
      apply (rule params_ignore_non_otel)
     apply (rule 2)
    apply (rule 4)
    done
qed

theorem parameters_total_and_skip_sinks_without_target_witness:
  "bootstrapParameters_checked (Some scenario_policy)
     = Inr \<lparr>XdsServer = \<lparr>xds_Address = ''envoy-gateway'', xds_Port = 18000\<rparr>,
            AdminServer = \<lparr>admin_Address = ''127.0.0.1'', admin_Port = 19000,
                           AccessLogPath = ''/dev/null''\<rparr>,
            ReadyServer = \<lparr>ready_Address = ''0.0.0.0'', ready_Port = 19001,
                           ReadinessPath = ''/ready''\<rparr>,
            EnablePrometheus = True,
            OtelMetricSinks = [\<lparr>sink_Address = ''m'', sink_Port = 4317\<rparr>,
                               \<lparr>sink_Address = ''m:4'', sink_Port = 317\<rparr>],
            StatsMatcher =
              \<lparr>InclusionPrefixs = [''custom_'', ''server'', ''cluster_manager'',
                                   ''listener_manager'', ''server'', ''cluster.xds-grpc''],
               InclusionSuffixs = [], InclusionRegexps = []\<rparr>\<rparr>
   \<and> bootstrapParameters_of (Some (scenario_policy\<lparr>Sinks :=
        [\<lparr>OpenTelemetry = Some \<lparr>Host = ''m'', Port = 4317\<rparr>\<rparr>,
         \<lparr>OpenTelemetry = Some \<lparr>Host = ''m'', Port = 4317\<rparr>\<rparr>,
         \<lparr>OpenTelemetry = Some \<lparr>Host = ''m:4'', Port = 317\<rparr>\<rparr>]\<rparr>))
     = bootstrapParameters_of (Some scenario_policy)"
proof -
  have f: "filter (\<lambda>s. OpenTelemetry s \<noteq> None) (Sinks scenario_policy) =
        [\<lparr>OpenTelemetry = Some \<lparr>Host = ''m'', Port = 4317\<rparr>\<rparr>,
         \<lparr>OpenTelemetry = Some \<lparr>Host = ''m'', Port = 4317\<rparr>\<rparr>,
         \<lparr>OpenTelemetry = Some \<lparr>Host = ''m:4'', Port = 317\<rparr>\<rparr>]"
    by (simp add: scenario_policy_def)
  have p: "(\<exists>pm prom. Some scenario_policy = Some pm \<and> Prometheus pm = Some prom) = True"
    by (simp add: scenario_policy_def)
  have s: "map to_metricSink
      (first_occurrences target_key (otel_targets (policy_sinks (Some scenario_policy))))
      = [\<lparr>sink_Address = ''m'', sink_Port = 4317\<rparr>, \<lparr>sink_Address = ''m:4'', sink_Port = 317\<rparr>]"
    by (simp only: metricSinks_of_eq [symmetric] scenario_sinks)
  have c: "caller_prefixes (Some scenario_policy) = [''custom_'', ''server'']"
    by (simp add: caller_prefixes_def scenario_policy_def slice_elems_def upt_0_2)
  have o: "policy_override (Some scenario_policy) =
     Some \<lparr>strings_memory = (\<lambda>a. if a = 0 then ''custom_'' else ''server''),
           api_InclusionPrefixs = \<lparr>slice_ptr = 0, slice_len = 2, slice_cap = 2\<rparr>,
           api_InclusionSuffixs = nil_slice, api_InclusionRegexps = nil_slice\<rparr>"
    by (rule scenario_override)
  show ?thesis
    using parameters_total_and_skip_sinks_without_target
            [of "Some scenario_policy" scenario_policy "[]" "[]"]
    by (simp only: f p s c o option.case ProxyStatsMatcher.simps slice_elems_nil append.simps
          simp_thms)
qed

subsection \<open>C6: the infrastructure fields\<close>

text \<open>
  C6. Whatever the policy is, the fields \<open>XdsServer\<close>, \<open>AdminServer\<close> and \<open>ReadyServer\<close> of the
  parameters are the fixed constants: \<open>envoy-gateway:18000\<close>; \<open>127.0.0.1:19000\<close> with access
  log \<open>/dev/null\<close>; \<open>0.0.0.0:19001\<close> with path \<open>/ready\<close>.
\<close>

theorem infrastructure_fields_fixed:
  "XdsServer (bootstrapParameters_of proxyMetrics)
     = \<lparr>xds_Address = ''envoy-gateway'', xds_Port = 18000\<rparr>
   \<and> AdminServer (bootstrapParameters_of proxyMetrics)
     = \<lparr>admin_Address = ''127.0.0.1'', admin_Port = 19000, AccessLogPath = ''/dev/null''\<rparr>
   \<and> ReadyServer (bootstrapParameters_of proxyMetrics)
     = \<lparr>ready_Address = ''0.0.0.0'', ready_Port = 19001, ReadinessPath = ''/ready''\<rparr>"
  by (simp add: bootstrapParameters_of_def envoyGatewayXdsServerHost_def DefaultXdsServerPort_def
      envoyAdminAddress_def envoyAdminPort_def envoyAdminAccessLogPath_def
      envoyReadinessAddress_def EnvoyReadinessPort_def EnvoyReadinessPath_def)

theorem infrastructure_fields_fixed_witness:
  "XdsServer (bootstrapParameters_of (Some scenario_policy)) = XdsServer (bootstrapParameters_of None)
   \<and> AdminServer (bootstrapParameters_of (Some scenario_policy))
     = \<lparr>admin_Address = ''127.0.0.1'', admin_Port = 19000, AccessLogPath = ''/dev/null''\<rparr>
   \<and> ReadyServer (bootstrapParameters_of (Some scenario_policy))
     = ReadyServer (bootstrapParameters_of None)"
  using infrastructure_fields_fixed [of "Some scenario_policy"] infrastructure_fields_fixed [of None]
  by simp

subsection \<open>C8: all of the document or none of it\<close>

text \<open>
  C8. For every template executor and every policy, \<open>GetRenderedBootstrapConfig\<close> returns
  either all that the executor wrote and no error, or the empty string and the error
  \<open>failed to render bootstrap config:\<close> followed by the executor's error; what the executor
  wrote before it failed is not returned. The package's template never fails.
\<close>

theorem render_all_or_nothing:
  "GetRenderedBootstrapConfig tmpl proxyMetrics =
     (case tmpl (bootstrapParameters_of proxyMetrics) of
        (buf, None) \<Rightarrow> (buf, None)
      | (buf, Some err) \<Rightarrow> ([], Some (''failed to render bootstrap config: '' @ err)))
   \<and> snd (bootstrapTmpl js (bootstrapParameters_of proxyMetrics)) = None"
  by (simp add: GetRenderedBootstrapConfig_def render_def bootstrapTmpl_def
      split: prod.splits option.splits)

theorem render_all_or_nothing_witness:
  "GetRenderedBootstrapConfig (\<lambda>p. (''admin:'', Some ''boom'')) None
     = ([], Some ''failed to render bootstrap config: boom'')
   \<and> GetRenderedBootstrapConfig (\<lambda>p. (''admin:'', None)) None = (''admin:'', None)"
  using render_all_or_nothing [of "\<lambda>p. (''admin:'', Some ''boom'')" None "\<lambda>s. s"]
        render_all_or_nothing [of "\<lambda>p. (''admin:'', None)" None "\<lambda>s. s"]
  by simp

subsection \<open>C9: no \<open>stats_sinks\<close> section without sinks\<close>

lemma stats_sinks_line_mem:
  "''stats_sinks:'' \<in> set (bootstrapTmpl_lines js p) \<longleftrightarrow> OtelMetricSinks p \<noteq> []"
proof -
  have i: "is_stats_sinks_line ''stats_sinks:''" by (simp add: is_stats_sinks_line_def)
  have "''stats_sinks:'' \<in> set (bootstrapTmpl_lines js p)
      \<longleftrightarrow> ''stats_sinks:'' \<in> set (filter is_stats_sinks_line (bootstrapTmpl_lines js p))"
    using i by simp
  also have "\<dots> \<longleftrightarrow> OtelMetricSinks p \<noteq> []"
    by (simp only: ss_lines) simp
  finally show ?thesis .
qed

lemma sublist_junction:
  assumes "xs = xs' @ [a]" and "ys = b # ys'"
  shows "sublist [a, b] (ps @ xs @ ys @ ss)"
proof -
  have "ps @ xs @ ys @ ss = (ps @ xs') @ [a, b] @ (ys' @ ss)"
    by (simp add: assms)
  then show ?thesis by (simp only: sublist_appendI)
qed

lemma static_resources_follow_dynamic_resources:
  assumes "OtelMetricSinks p = []"
  shows "sublist [''    resource_api_version: V3'', ''static_resources:''] (bootstrapTmpl_lines js p)"
proof -
  have d: "dynamic_resources_section
      = butlast dynamic_resources_section @ [''    resource_api_version: V3'']"
    by (simp add: dynamic_resources_section_def)
  have l: "listeners_section p = ''static_resources:'' # tl (listeners_section p)"
    by (simp add: listeners_section_def)
  have "bootstrapTmpl_lines js p =
      (admin_section (AdminServer p) @ stats_config_section js (StatsMatcher p))
      @ dynamic_resources_section @ listeners_section p
      @ (clusters_section p @ layered_runtime_section)"
    by (simp only: bootstrapTmpl_lines_def assms stats_sinks_section_def simp_thms if_False
          append_Nil append_assoc)
  then show ?thesis
    by (simp only: sublist_junction [OF d l])
qed




subsection \<open>C10: the key tells hosts and ports apart\<close>

lemma first_occurrences_snoc:
  "first_occurrences key (xs @ [t]) =
     (if key t \<in> key ` set xs then first_occurrences key xs else first_occurrences key xs @ [t])"
proof (induction key xs rule: first_occurrences.induct)
  case (1 key)
  then show ?case by simp
next
  case (2 key x xs)
  show ?case
  proof (cases "key t = key x")
    case True
    then show ?thesis by simp
  next
    case False
    have "key t \<in> key ` set (filter (\<lambda>y. key y \<noteq> key x) xs) \<longleftrightarrow> key t \<in> key ` set xs"
      using False by auto
    with False 2 show ?thesis by simp
  qed
qed

lemma first_occurrences_prefix:
  "prefix (first_occurrences key xs) (first_occurrences key (xs @ ys))"
proof (induction key xs arbitrary: ys rule: first_occurrences.induct)
  case (1 key)
  then show ?case by simp
next
  case (2 key x xs)
  from 2 [of "filter (\<lambda>y. key y \<noteq> key x) ys"] show ?case by simp
qed

lemma sinks_of_loop:
  "snd (sinks_loop ({}, []) sinks)
     = map to_metricSink (first_occurrences target_key (otel_targets sinks))"
  by (simp add: sinks_loop_eq)

lemma retained_same_host_port:
  "(\<exists>m \<in> set (map to_metricSink (first_occurrences target_key ts)).
       sink_Address m = Host ot \<and> sink_Port m = Port ot)
     \<longleftrightarrow> target_key ot \<in> target_key ` set ts"
proof -
  let ?F = "first_occurrences target_key ts"
  have "(\<exists>m \<in> set (map to_metricSink ?F). sink_Address m = Host ot \<and> sink_Port m = Port ot)
      \<longleftrightarrow> (\<exists>t \<in> set ?F. Host t = Host ot \<and> Port t = Port ot)"
    by (simp add: to_metricSink_def)
  also have "\<dots> \<longleftrightarrow> (\<exists>t \<in> set ?F. target_key t = target_key ot)"
    by (simp only: target_key_def Sprintf_s_d_inj)
  also have "\<dots> \<longleftrightarrow> target_key ot \<in> target_key ` set ?F"
    by (simp only: image_iff) (rule bex_cong, rule refl, rule eq_commute)
  also have "\<dots> \<longleftrightarrow> target_key ot \<in> target_key ` set ts"
    by (simp only: keys_first_occurrences)
  finally show ?thesis .
qed

lemma sinks_loop_snoc:
  assumes "OpenTelemetry s = Some ot"
  shows "snd (sinks_loop ({}, []) (xs @ [s])) =
     (if \<exists>m \<in> set (snd (sinks_loop ({}, []) xs)).
            sink_Address m = Host ot \<and> sink_Port m = Port ot
      then snd (sinks_loop ({}, []) xs)
      else snd (sinks_loop ({}, []) xs) @ [\<lparr>sink_Address = Host ot, sink_Port = Port ot\<rparr>])"
proof -
  have t: "otel_targets (xs @ [s]) = otel_targets xs @ [ot]"
    using assms by (simp add: otel_targets_append)
  show ?thesis
    by (simp only: sinks_of_loop t first_occurrences_snoc retained_same_host_port)
       (simp add: to_metricSink_def)
qed

lemma sinks_loop_later_entries:
  "prefix (snd (sinks_loop ({}, []) xs)) (snd (sinks_loop ({}, []) (xs @ ys)))"
  by (simp only: sinks_of_loop otel_targets_append map_mono_prefix first_occurrences_prefix)

text \<open>
  C10. Two keys are equal exactly when the hosts are equal and the ports are equal: the
  decimal port holds no colon, so the last colon of a key separates host and port. A sink
  entry with a target, coming after the entries \<open>xs\<close>, is dropped exactly when a sink
  retained from \<open>xs\<close> has the same host and the same port, and is appended otherwise;
  entries that come later do not change what was retained before them.
\<close>

theorem dedup_key_distinguishes_host_and_port:
  "(Sprintf_s_d h p = Sprintf_s_d h' p') = (h = h' \<and> p = p')
   \<and> CHR '':'' \<notin> set (fmt_d (sint p))
   \<and> (OpenTelemetry s = Some ot \<longrightarrow>
        snd (sinks_loop ({}, []) (xs @ [s])) =
          (if \<exists>m \<in> set (snd (sinks_loop ({}, []) xs)).
                 sink_Address m = Host ot \<and> sink_Port m = Port ot
           then snd (sinks_loop ({}, []) xs)
           else snd (sinks_loop ({}, []) xs)
                  @ [\<lparr>sink_Address = Host ot, sink_Port = Port ot\<rparr>]))
   \<and> prefix (snd (sinks_loop ({}, []) (xs @ [s]))) (snd (sinks_loop ({}, []) ((xs @ [s]) @ ys)))
   \<and> OtelMetricSinks (bootstrapParameters_of (Some pm)) = snd (sinks_loop ({}, []) (Sinks pm))"
proof -
  have 5: "OtelMetricSinks (bootstrapParameters_of (Some pm)) = snd (sinks_loop ({}, []) (Sinks pm))"
    by (simp add: metricSinks_of_def)
  show ?thesis
    using sinks_loop_snoc [of s ot xs] sinks_loop_later_entries [of "xs @ [s]" ys] 5
    by (simp only: Sprintf_s_d_inj fmt_d_no_colon simp_thms) blast
qed

theorem dedup_key_distinguishes_host_and_port_witness:
  "Sprintf_s_d ''m'' 4317 = ''m:4317'' \<and> Sprintf_s_d ''m:4'' 317 = ''m:4:317''
   \<and> Sprintf_s_d ''m:4'' 317 \<noteq> Sprintf_s_d ''m'' 4317
   \<and> snd (sinks_loop ({}, [])
        ([\<lparr>OpenTelemetry = Some \<lparr>Host = ''m'', Port = 4317\<rparr>\<rparr>]
           @ [\<lparr>OpenTelemetry = Some \<lparr>Host = ''m'', Port = 4317\<rparr>\<rparr>]))
       = [\<lparr>sink_Address = ''m'', sink_Port = 4317\<rparr>]
   \<and> snd (sinks_loop ({}, [])
        ([\<lparr>OpenTelemetry = Some \<lparr>Host = ''m'', Port = 4317\<rparr>\<rparr>]
           @ [\<lparr>OpenTelemetry = Some \<lparr>Host = ''m:4'', Port = 317\<rparr>\<rparr>]))
       = [\<lparr>sink_Address = ''m'', sink_Port = 4317\<rparr>, \<lparr>sink_Address = ''m:4'', sink_Port = 317\<rparr>]"
proof -
  have k: "Sprintf_s_d ''m'' 4317 = ''m:4317''" "Sprintf_s_d ''m:4'' 317 = ''m:4:317''"
    by (simp_all add: key_eval)
  have o: "OpenTelemetry \<lparr>OpenTelemetry = Some \<lparr>Host = ''m'', Port = 4317\<rparr>\<rparr>
             = Some \<lparr>Host = ''m'', Port = 4317\<rparr>"
          "OpenTelemetry \<lparr>OpenTelemetry = Some \<lparr>Host = ''m:4'', Port = 317\<rparr>\<rparr>
             = Some \<lparr>Host = ''m:4'', Port = 317\<rparr>"
    by simp_all
  have x: "snd (sinks_loop ({}, []) [\<lparr>OpenTelemetry = Some \<lparr>Host = ''m'', Port = 4317\<rparr>\<rparr>])
       = [\<lparr>sink_Address = ''m'', sink_Port = 4317\<rparr>]"
    by simp
  note a = dedup_key_distinguishes_host_and_port
      [of "''m:4''" 317 "''m''" 4317 "\<lparr>OpenTelemetry = Some \<lparr>Host = ''m'', Port = 4317\<rparr>\<rparr>"
          "\<lparr>Host = ''m'', Port = 4317\<rparr>"
          "[\<lparr>OpenTelemetry = Some \<lparr>Host = ''m'', Port = 4317\<rparr>\<rparr>]" "[]" scenario_policy]
  note b = dedup_key_distinguishes_host_and_port
      [of "''m:4''" 317 "''m''" 4317 "\<lparr>OpenTelemetry = Some \<lparr>Host = ''m:4'', Port = 317\<rparr>\<rparr>"
          "\<lparr>Host = ''m:4'', Port = 317\<rparr>"
          "[\<lparr>OpenTelemetry = Some \<lparr>Host = ''m'', Port = 4317\<rparr>\<rparr>]" "[]" scenario_policy]
  from a have n: "Sprintf_s_d ''m:4'' 317 \<noteq> Sprintf_s_d ''m'' 4317" by simp
  from a o(1) have r1: "snd (sinks_loop ({}, [])
        ([\<lparr>OpenTelemetry = Some \<lparr>Host = ''m'', Port = 4317\<rparr>\<rparr>]
           @ [\<lparr>OpenTelemetry = Some \<lparr>Host = ''m'', Port = 4317\<rparr>\<rparr>]))
       = [\<lparr>sink_Address = ''m'', sink_Port = 4317\<rparr>]"
    by (simp only: x) simp
  from b o(2) have r2: "snd (sinks_loop ({}, [])
        ([\<lparr>OpenTelemetry = Some \<lparr>Host = ''m'', Port = 4317\<rparr>\<rparr>]
           @ [\<lparr>OpenTelemetry = Some \<lparr>Host = ''m:4'', Port = 317\<rparr>\<rparr>]))
       = [\<lparr>sink_Address = ''m'', sink_Port = 4317\<rparr>, \<lparr>sink_Address = ''m:4'', sink_Port = 317\<rparr>]"
    by (simp only: x) simp
  from k n r1 r2 show ?thesis by blast
qed

subsection \<open>Further properties of the code\<close>

lemma upt_1_5:
  "[Suc 0..<5] = [Suc 0, Suc (Suc 0), Suc (Suc (Suc 0)), Suc (Suc (Suc (Suc 0)))]"
  by (simp add: upt_rec eval_nat_numeral)

lemma upt_0_1: "[0..<1] = [0::nat]"
  by (simp add: upt_rec)

lemma shared_array_override:
  "policy_override (Some shared_array_policy) =
     Some \<lparr>strings_memory = (\<lambda>a. if a = 0 then ''custom_'' else ''_timeout''),
           api_InclusionPrefixs = \<lparr>slice_ptr = 0, slice_len = 1, slice_cap = 5\<rparr>,
           api_InclusionSuffixs = \<lparr>slice_ptr = 1, slice_len = 4, slice_cap = 4\<rparr>,
           api_InclusionRegexps = nil_slice\<rparr>"
  by (simp add: policy_override_def shared_array_policy_def)

text \<open>
  X1. When no sink address, no inclusion pattern and no escaped regular expression of the
  parameters holds a line break, splitting the text that \<open>GetRenderedBootstrapConfig\<close>
  returns at its line breaks gives exactly the template's lines with their values filled
  in.
\<close>

theorem rendered_text_splits_into_template_lines:
  assumes "values_one_line js (bootstrapParameters_of proxyMetrics)"
  shows "split_lines (fst (GetRenderedBootstrapConfig (bootstrapTmpl js) proxyMetrics))
           = bootstrapTmpl_lines js (bootstrapParameters_of proxyMetrics)"
  using rendered_lines_eq [OF assms] by (simp only: rendered_lines_def)

theorem rendered_text_splits_into_template_lines_witness:
  "values_one_line (\<lambda>s. s) (bootstrapParameters_of None)
   \<and> split_lines (fst (GetRenderedBootstrapConfig (bootstrapTmpl (\<lambda>s. s)) None))
       = bootstrapTmpl_lines (\<lambda>s. s) (bootstrapParameters_of None)"
  using rendered_text_splits_into_template_lines [OF absent_values_one_line [of "\<lambda>s. s"]]
    absent_values_one_line [of "\<lambda>s. s"]
  by (intro conjI)

text \<open>
  X2. The append of line 183 writes into the caller's array when the caller's prefix slice
  has spare capacity. With one array of five strings, of which the prefix slice views the
  first with capacity five and the suffix slice the other four, the caller's four suffixes
  are \<open>_timeout\<close> and the suffixes of the parameters are the four baseline prefixes.
\<close>

theorem baseline_overwrites_shared_suffixes:
  "slice_elems (strings_memory (the (policy_override (Some shared_array_policy))))
     (api_InclusionSuffixs (the (policy_override (Some shared_array_policy))))
     = [''_timeout'', ''_timeout'', ''_timeout'', ''_timeout'']
   \<and> ProxyStatsMatcher_of (Some shared_array_policy) =
       \<lparr>InclusionPrefixs = [''custom_'', ''cluster_manager'', ''listener_manager'', ''server'',
                            ''cluster.xds-grpc''],
        InclusionSuffixs = [''cluster_manager'', ''listener_manager'', ''server'',
                            ''cluster.xds-grpc''],
        InclusionRegexps = []\<rparr>"
  by (simp add: ProxyStatsMatcher_of_present [OF shared_array_override] shared_array_override
      append_strings_def slice_elems_def upt_1_5 upt_0_1 nil_slice_def)

text \<open>
  X3. For every template executor, rendering a configuration that was just rendered gives
  the same result again: the field \<open>rendered\<close> is overwritten with the same text on success
  and the configuration is left as it is on failure.
\<close>

theorem render_again_same_result:
  "render tmpl (snd (render tmpl b)) = render tmpl b"
  by (cases "tmpl (parameters b)"; cases "snd (tmpl (parameters b))")
     (simp_all add: render_def)

end
